theory Spec2Isabelle
  imports Complex_Main
begin

section \<open>The GDAL raster reader: data model\<close>

text \<open>
  A shallow embedding of \<^verbatim>\<open>src/IO/GDAL/vtkGDALRasterReader.cxx\<close>. The reader and its
  private implementation object are one record; every method takes the record and
  returns the updated one. The GDAL library is a collaborator: a dataset is a record
  of the answers its accessors give, and a band's windowed read is a function.

  C++ \<^verbatim>\<open>double\<close> is modelled by \<^typ>\<open>real\<close> (no rounding, no NaN, no infinities),
  and \<^verbatim>\<open>int\<close> by \<^typ>\<open>int\<close>; the Describe phase, whose arithmetic is applied to
  the caller's extent as it comes, wraps at 32 bits. Every access the C++ performs
  through a null pointer or outside a vector is a value of \<open>error\<close>.
\<close>

datatype error = NullPointer | OutOfRange | LengthError | AssertionFailed

definition bindE :: "error + 'a \<Rightarrow> ('a \<Rightarrow> error + 'b) \<Rightarrow> error + 'b" where
  "bindE m f = (case m of Inl e \<Rightarrow> Inl e | Inr x \<Rightarrow> f x)"

text \<open>\<^verbatim>\<open>v[i]\<close> on a \<^verbatim>\<open>std::vector\<close> (or on a C array of known length): the index is
  converted to \<^verbatim>\<open>size_t\<close>, so a negative one is out of range too.\<close>

definition vec_at :: "'a list \<Rightarrow> int \<Rightarrow> error + 'a" where
  "vec_at xs i = (if 0 \<le> i \<and> i < int (length xs) then Inr (xs ! nat i) else Inl OutOfRange)"

definition vec_set :: "'a list \<Rightarrow> int \<Rightarrow> 'a \<Rightarrow> error + 'a list" where
  "vec_set xs i v = (if 0 \<le> i \<and> i < int (length xs) then Inr (xs[nat i := v]) else Inl OutOfRange)"

text \<open>\<^verbatim>\<open>v.resize(n, x)\<close> and \<^verbatim>\<open>v.resize(n)\<close>: the first \<open>n\<close> elements stay, new ones
  are \<open>x\<close>. The argument is an \<^verbatim>\<open>int\<close> converted to \<^verbatim>\<open>size_t\<close>: a negative one
  asks for more than \<^verbatim>\<open>max_size()\<close> and \<^verbatim>\<open>resize\<close> throws.\<close>

definition vec_resize :: "'a list \<Rightarrow> int \<Rightarrow> 'a \<Rightarrow> error + 'a list" where
  "vec_resize xs n x =
     (if n < 0 then Inl LengthError
      else Inr (take (nat n) xs @ replicate (nat n - length xs) x))"

text \<open>A counted loop whose body may fail: the first failure ends it.\<close>

fun for_loop :: "'k list \<Rightarrow> ('k \<Rightarrow> 'a \<Rightarrow> error + 'a) \<Rightarrow> 'a \<Rightarrow> error + 'a" where
  "for_loop [] body a = Inr a"
| "for_loop (k # ks) body a = bindE (body k a) (for_loop ks body)"

text \<open>\<^verbatim>\<open>std::to_string(int)\<close> and \<^verbatim>\<open>stream << int\<close>: the decimal digits.\<close>

definition digit_char :: "nat \<Rightarrow> char" where
  "digit_char d = ''0123456789'' ! d"

fun string_of_nat :: "nat \<Rightarrow> string" where
  "string_of_nat n =
     (if n < 10 then [digit_char n]
      else string_of_nat (n div 10) @ [digit_char (n mod 10)])"

declare string_of_nat.simps [simp del]

definition to_string :: "int \<Rightarrow> string" where
  "to_string i = (if i < 0 then CHR ''-'' # string_of_nat (nat (- i)) else string_of_nat (nat i))"

subsection \<open>The GDAL collaborator\<close>

text \<open>Modelled from the spec: GDAL's headers (\<^verbatim>\<open>gdal.h\<close>, \<^verbatim>\<open>gdal_priv.h\<close>) are not
  among the source files. The enumerations carry the values the reader tests for
  (section 6 of the spec lists the colour roles), and one more for every other value.\<close>

datatype CPLErr = CE_None | CE_Debug | CE_Warning | CE_Failure | CE_Fatal

datatype GDALDataType =
  GDT_Unknown | GDT_Byte | GDT_UInt16 | GDT_Int16 | GDT_UInt32 | GDT_Int32
  | GDT_Float32 | GDT_Float64 | GDT_CInt16 | GDT_CInt32 | GDT_CFloat32 | GDT_CFloat64

datatype GDALColorInterp =
  GCI_Undefined | GCI_GrayIndex | GCI_PaletteIndex | GCI_RedBand | GCI_GreenBand
  | GCI_BlueBand | GCI_AlphaBand | GCI_YCbCr_YBand | GCI_YCbCr_CbBand | GCI_YCbCr_CrBand
  | GCI_Other

datatype GDALPaletteInterp = GPI_Gray | GPI_RGB | GPI_CMYK | GPI_HLS

record GDALColorEntry =
  c1 :: int
  c2 :: int
  c3 :: int
  c4 :: int

record GDALColorTable =
  PaletteInterpretation :: GDALPaletteInterp
  ColorEntries :: "GDALColorEntry list"

record GDAL_GCP =
  dfGCPPixel :: real
  dfGCPLine :: real
  dfGCPX :: real
  dfGCPY :: real

record GeoTransform =
  adf0 :: real
  adf1 :: real
  adf2 :: real
  adf3 :: real
  adf4 :: real
  adf5 :: real

text \<open>The arguments of \<^verbatim>\<open>GDALRasterBand::RasterIO(GF_Read, ...)\<close> but the buffer.\<close>

record RasterIOArgs =
  nXOff :: int
  nYOff :: int
  nXSize :: int
  nYSize :: int
  nBufXSize :: int
  nBufYSize :: int
  eBufType :: GDALDataType
  nPixelSpace :: int
  nLineSpace :: int

text \<open>
  A band answers \<^verbatim>\<open>GetNoDataValue(&flag)\<close> with the flag it stores and the value it
  returns. \<open>RasterIO\<close> gives the status of a windowed read and, for the \<open>k\<close>-th pixel of
  the destination, the value the read stored there, or \<open>None\<close> where it left the buffer
  as it was (a failed read may store any part). The pixel type \<open>'raw\<close> is the template
  parameter \<^verbatim>\<open>RAW_TYPE\<close>.
\<close>

record 'raw GDALRasterBand =
  RasterDataType :: GDALDataType
  ColorInterpretation :: GDALColorInterp
  NoDataFlag :: int
  NoDataVal :: real
  RasterIO :: "RasterIOArgs \<Rightarrow> CPLErr \<times> (nat \<Rightarrow> 'raw option)"
  ColorTable :: "GDALColorTable option"
  CategoryNames :: "string list option"

record 'raw GDALDataset =
  RasterXSize :: int
  RasterYSize :: int
  RasterBands :: "'raw GDALRasterBand list"
  GCPProjection :: "string option"
  GCPs :: "GDAL_GCP list option"
  GeoTransformStatus :: CPLErr
  GeoTransformValue :: GeoTransform
  ProjectionRef :: string
  DatasetMetadata :: "string list"
  DatasetDriverShortName :: string
  DatasetDriverLongName :: string

definition GetRasterCount :: "'raw GDALDataset \<Rightarrow> int" where
  "GetRasterCount ds = int (length (RasterBands ds))"

text \<open>\<^verbatim>\<open>GetRasterBand(i)\<close>: bands are numbered from 1; any other number gives null.\<close>

definition GetRasterBand :: "'raw GDALDataset \<Rightarrow> int \<Rightarrow> 'raw GDALRasterBand option" where
  "GetRasterBand ds i =
     (if 1 \<le> i \<and> i \<le> GetRasterCount ds then Some (RasterBands ds ! nat (i - 1)) else None)"

subsection \<open>The output grid\<close>

text \<open>Modelled from the spec: \<^verbatim>\<open>vtkLookupTable\<close>, the VTK data arrays and
  \<^verbatim>\<open>vtkUniformGrid\<close> are not among the source files. A grid holds cell-indexed scalar
  arrays keyed by name, a blanking mask over its cells, and field-level arrays; a colour
  table is an ordered sequence of RGBA entries with optional annotations.\<close>

record vtkLookupTable =
  IndexedLookup :: bool
  TableValues :: "(real \<times> real \<times> real \<times> real) list"
  Annotations :: "(int \<times> string) list"

definition new_vtkLookupTable :: vtkLookupTable where
  "new_vtkLookupTable =
     \<lparr> IndexedLookup = False, TableValues = replicate 256 (0, 0, 0, 0), Annotations = [] \<rparr>"

text \<open>An array element is \<open>None\<close> until a value is stored in it
  (\<^verbatim>\<open>SetNumberOfTuples\<close> allocates without initialising).\<close>

record 'raw vtkDataArray =
  Name :: string
  NumberOfComponents :: nat
  Values :: "'raw option list"
  LookupTable :: "vtkLookupTable option"

datatype field_array =
  StringField string "string list"
  | DoubleField string "real option list"

record 'raw vtkUniformGrid =
  Extent :: "int \<times> int \<times> int \<times> int \<times> int \<times> int"
  Spacing :: "real \<times> real \<times> real"
  Origin :: "real \<times> real \<times> real"
  CellArrays :: "'raw vtkDataArray list"
  ActiveScalars :: "nat option"
  BlankedCells :: "nat set"
  FieldData :: "field_array list"

definition new_vtkUniformGrid :: "'raw vtkUniformGrid" where
  "new_vtkUniformGrid =
     \<lparr> Extent = (0, -1, 0, -1, 0, -1), Spacing = (1, 1, 1), Origin = (0, 0, 0),
       CellArrays = [], ActiveScalars = None, BlankedCells = {}, FieldData = [] \<rparr>"

text \<open>\<^verbatim>\<open>InsertValue(id, v)\<close> stores at \<open>id\<close> and grows the array when \<open>id\<close> is past
  its end.\<close>

definition InsertValue :: "'raw option list \<Rightarrow> nat \<Rightarrow> 'raw \<Rightarrow> 'raw option list" where
  "InsertValue vals t v =
     (if t < length vals then vals[t := Some v]
      else vals @ replicate (t - length vals) None @ [Some v])"

text \<open>\<^verbatim>\<open>AddArray\<close> replaces the array of the same name, or appends.\<close>

fun AddArray :: "'raw vtkDataArray \<Rightarrow> 'raw vtkDataArray list \<Rightarrow> 'raw vtkDataArray list" where
  "AddArray arr [] = [arr]"
| "AddArray arr (a # as) = (if Name a = Name arr then arr # as else a # AddArray arr as)"

text \<open>\<^verbatim>\<open>BlankCell(cellId)\<close> sets the hidden bit of the cell with that id.\<close>

definition BlankCell :: "nat \<Rightarrow> 'raw vtkUniformGrid \<Rightarrow> 'raw vtkUniformGrid" where
  "BlankCell cellId g = g\<lparr> BlankedCells := insert cellId (BlankedCells g) \<rparr>"

subsection \<open>The reader\<close>

text \<open>
  What is outside the reader: \<^verbatim>\<open>GDALOpen\<close> on a path, the PROJ.4 export of a
  projection string, whether \<^verbatim>\<open>assert\<close> is compiled out (\<^verbatim>\<open>NDEBUG\<close>), and
  \<^verbatim>\<open>static_cast<RAW_TYPE>\<close> of a \<^verbatim>\<open>double\<close>.
\<close>

record 'raw env =
  GDALOpen :: "string \<Rightarrow> 'raw GDALDataset option"
  exportToProj4 :: "string \<Rightarrow> string"
  NDEBUG :: bool
  static_cast_raw :: "real \<Rightarrow> 'raw"

datatype vtkScalarType =
  VTK_UNSIGNED_CHAR | VTK_UNSIGNED_SHORT | VTK_SHORT | VTK_UNSIGNED_INT | VTK_INT
  | VTK_FLOAT | VTK_DOUBLE

type_synonym point2 = "real \<times> real"

text \<open>
  The fields of \<^verbatim>\<open>vtkGDALRasterReaderInternal\<close> followed by those of
  \<^verbatim>\<open>vtkGDALRasterReader\<close> that the methods below use. \<open>CornerPoints\<close> holds the eight
  doubles as four pairs: the \<open>k\<close>-th pair is \<^verbatim>\<open>CornerPoints[2k]\<close>,
  \<^verbatim>\<open>CornerPoints[2k+1]\<close>.
\<close>

record 'raw reader =
  NumberOfBands :: int
  NumberOfBytesPerPixel :: int
  SourceOffset :: "int \<times> int"
  SourceDimensions :: "int \<times> int"
  PrevReadFileName :: string
  GDALData :: "'raw GDALDataset option"
  TargetDataType :: GDALDataType
  CornerPoints :: "point2 \<times> point2 \<times> point2 \<times> point2"
  HasNoDataValue :: "int list"
  NoDataValue :: "real list"
  NumberOfCells :: int
  UniformGridData :: "'raw vtkUniformGrid option"
  FileName :: "string option"
  TargetDimensions :: "int \<times> int"
  RasterDimensions :: "int \<times> int"
  DataExtent :: "int \<times> int \<times> int \<times> int \<times> int \<times> int"
  DataOrigin :: "real \<times> real \<times> real"
  DataSpacing :: "real \<times> real \<times> real"
  Projection :: string
  MetaData :: "string list"
  DriverShortName :: string
  DriverLongName :: string
  DataScalarType :: vtkScalarType
  NumberOfScalarComponents :: int

text \<open>The two constructors (lines 120-143 and 778-806). \<open>DataScalarType\<close> and
  \<open>NumberOfScalarComponents\<close> are set by the superclass, which is not among the source
  files; every Produce sets the first before it is read.\<close>

definition new_vtkGDALRasterReader :: "'raw reader" where
  "new_vtkGDALRasterReader =
     \<lparr> NumberOfBands = 0, NumberOfBytesPerPixel = 0,
       SourceOffset = (0, 0), SourceDimensions = (0, 0),
       PrevReadFileName = [], GDALData = None, TargetDataType = GDT_Byte,
       CornerPoints = ((-1, -1), (-1, -1), (-1, -1), (-1, -1)),
       HasNoDataValue = [], NoDataValue = [], NumberOfCells = 0,
       UniformGridData = None, FileName = None,
       TargetDimensions = (-1, -1), RasterDimensions = (-1, -1),
       DataExtent = (-1, -1, -1, -1, -1, -1),
       DataOrigin = (0, 0, 0), DataSpacing = (1, 1, 1),
       Projection = [], MetaData = [], DriverShortName = [], DriverLongName = [],
       DataScalarType = VTK_SHORT, NumberOfScalarComponents = 1 \<rparr>"

section \<open>Convert (lines 548-605)\<close>

text \<open>
  The body of the innermost loop, for row \<open>j\<close>, column \<open>i\<close> and slot \<open>bi\<close>. It runs on
  the reader and the new array \<^verbatim>\<open>scArr\<close>. \<^verbatim>\<open>targetIndex\<close> is computed in
  \<^verbatim>\<open>size_t\<close> and \<^verbatim>\<open>sourceIndex\<close> in \<^verbatim>\<open>int\<close>; both pass through a \<^verbatim>\<open>double\<close>, which
  holds them exactly. The locals \<^verbatim>\<open>min\<close> and \<^verbatim>\<open>max\<close> are never read after the loop
  and are left out; the read of \<^verbatim>\<open>rawUniformGridData[0]\<close> that initialises them is
  in \<open>Convert\<close>.
\<close>

definition Convert_sample ::
  "(real \<Rightarrow> 'raw::zero) \<Rightarrow> 'raw list \<Rightarrow> int \<Rightarrow> int \<Rightarrow> int list \<Rightarrow> bool \<Rightarrow> bool \<Rightarrow>
   nat \<Rightarrow> nat \<Rightarrow> nat \<Rightarrow> 'raw reader \<times> 'raw option list \<Rightarrow>
   error + ('raw reader \<times> 'raw option list)" where
  "Convert_sample cast rawUniformGridData targetWidth targetHeight groupIndex flipX flipY
       j i bi sv =
     (case sv of (s, scArr) \<Rightarrow>
      let jIndex = (if flipY then targetHeight - 1 - int j else int j);
          iIndex = (if flipX then targetWidth - 1 - int i else int i)
      in
      bindE (vec_at groupIndex (int bi)) (\<lambda>bandIndex.
      bindE (vec_at (HasNoDataValue s) (bandIndex - 1)) (\<lambda>hasNoData.
      bindE (if hasNoData \<noteq> 0
             then bindE (vec_at (NoDataValue s) (bandIndex - 1)) (\<lambda>v. Inr (cast v))
             else Inr 0) (\<lambda>TNoDataValue.
      let targetIndex = i * length groupIndex
                        + nat (int j * targetWidth) * length groupIndex + bi;
          sourceIndex = iIndex + jIndex * targetWidth + int bi * targetWidth * targetHeight
      in
      bindE (vec_at rawUniformGridData sourceIndex) (\<lambda>tmp.
      Inr (if hasNoData \<noteq> 0 \<and> tmp = TNoDataValue
           then s\<lparr> UniformGridData := map_option (BlankCell targetIndex) (UniformGridData s) \<rparr>
           else s\<lparr> NumberOfCells := NumberOfCells s + 1 \<rparr>,
           InsertValue scArr targetIndex tmp))))))"

definition Convert ::
  "(real \<Rightarrow> 'raw::zero) \<Rightarrow> 'raw reader \<Rightarrow> 'raw list \<Rightarrow> int \<Rightarrow> int \<Rightarrow> int list \<Rightarrow> string \<Rightarrow>
   bool \<Rightarrow> bool \<Rightarrow> error + 'raw reader" where
  "Convert cast s rawUniformGridData targetWidth targetHeight groupIndex name flipX flipY =
     (case UniformGridData s of
        None \<Rightarrow> Inr s
      | Some _ \<Rightarrow>
          bindE (vec_at rawUniformGridData 0) (\<lambda>_.
          bindE (for_loop [0..<nat targetHeight] (\<lambda>j.
                   for_loop [0..<nat targetWidth] (\<lambda>i.
                     for_loop [0..<length groupIndex]
                       (Convert_sample cast rawUniformGridData targetWidth targetHeight
                          groupIndex flipX flipY j i)))
                   (s, replicate (nat (targetWidth * targetHeight) * length groupIndex) None))
            (\<lambda>sv. case sv of (s', scArr) \<Rightarrow>
               Inr (s'\<lparr> UniformGridData :=
                      map_option
                        (\<lambda>g. g\<lparr> CellArrays :=
                                  AddArray \<lparr> Name = name,
                                             NumberOfComponents = length groupIndex,
                                             Values = scArr, LookupTable = None \<rparr>
                                    (CellArrays g) \<rparr>)
                        (UniformGridData s') \<rparr>))))"

text \<open>\<^verbatim>\<open>GetNumberOfCells\<close> (lines 879-882).\<close>

definition GetNumberOfCells :: "'raw reader \<Rightarrow> int" where
  "GetNumberOfCells s = NumberOfCells s"

text \<open>\<^verbatim>\<open>GetInvalidValue\<close> (lines 1107-1110).\<close>

definition GetInvalidValue :: "'raw reader \<Rightarrow> int \<Rightarrow> error + real" where
  "GetInvalidValue s bandIndex = vec_at (NoDataValue s) (bandIndex - 1)"

section \<open>Corner geocoding (lines 608-696)\<close>

text \<open>
  \<open>GetGeoCornerPoint\<close> returns \<^verbatim>\<open>retVal\<close> and what it stores in \<^verbatim>\<open>out\<close> (\<open>None\<close> when
  it returns before the store). Its callers pass the address of a pair of
  \<open>CornerPoints\<close>, so \<^verbatim>\<open>out\<close> is never null. The method tests the argument
  \<^verbatim>\<open>dataset\<close> and then reads \<^verbatim>\<open>this->GDALData\<close>.
\<close>

definition gcp_step :: "bool \<Rightarrow> bool \<Rightarrow> GDAL_GCP list \<Rightarrow> int \<Rightarrow> point2 \<Rightarrow> error + point2" where
  "gcp_step leftCorner upperCorner gcps i geo =
     bindE (vec_at gcps i) (\<lambda>gcp.
       let gcpLeftCorner = (dfGCPPixel gcp = 0.5);
           gcpUpperCorner = (dfGCPLine gcp = 0.5)
       in Inr (if gcpLeftCorner = leftCorner \<and> gcpUpperCorner = upperCorner
               then (dfGCPX gcp, dfGCPY gcp) else geo))"

definition GetGeoCornerPoint ::
  "'raw reader \<Rightarrow> 'raw GDALDataset option \<Rightarrow> real \<Rightarrow> real \<Rightarrow> error + (bool \<times> point2 option)" where
  "GetGeoCornerPoint s dataset x y =
     (case dataset of
        None \<Rightarrow> Inr (False, None)
      | Some _ \<Rightarrow>
         (case GDALData s of
            None \<Rightarrow> Inl NullPointer
          | Some ds \<Rightarrow>
             (case (GCPProjection ds, GCPs ds) of
                (Some gcpProj, Some gcps) \<Rightarrow>
                  bindE (for_loop [0, 1, 2, 3] (gcp_step (x = 0) (y = 0) gcps) (0, 0))
                    (\<lambda>geo. Inr (False, Some geo))
              | _ \<Rightarrow>
                  let t = GeoTransformValue ds in
                  if GeoTransformStatus ds = CE_None
                  then Inr (True, Some (adf0 t + adf1 t * x + adf2 t * y,
                                        adf3 t + adf4 t * x + adf5 t * y))
                  else Inr (False, Some (x, y)))))"

definition store_corner :: "point2 option \<Rightarrow> point2 \<Rightarrow> point2" where
  "store_corner out old = (case out of None \<Rightarrow> old | Some p \<Rightarrow> p)"

definition GetGeoCornerPoints :: "'raw reader \<Rightarrow> error + 'raw reader" where
  "GetGeoCornerPoints s =
     (let W = real_of_int (fst (RasterDimensions s));
          H = real_of_int (snd (RasterDimensions s))
      in
      case CornerPoints s of (p0, p2, p4, p6) \<Rightarrow>
      bindE (GetGeoCornerPoint s (GDALData s) 0 0) (\<lambda>r0.
      bindE (GetGeoCornerPoint s (GDALData s) 0 H) (\<lambda>r2.
      bindE (GetGeoCornerPoint s (GDALData s) W H) (\<lambda>r4.
      bindE (GetGeoCornerPoint s (GDALData s) W 0) (\<lambda>r6.
      Inr (s\<lparr> CornerPoints := (store_corner (snd r0) p0, store_corner (snd r2) p2,
                               store_corner (snd r4) p4, store_corner (snd r6) p6) \<rparr>))))))"

section \<open>ReadColorTable (lines 699-743)\<close>

text \<open>\<^verbatim>\<open>SetAnnotation(value, text)\<close> replaces the text of a value that is annotated
  already, or appends.\<close>

definition SetAnnotation :: "int \<Rightarrow> string \<Rightarrow> (int \<times> string) list \<Rightarrow> (int \<times> string) list" where
  "SetAnnotation v txt anns =
     (if v \<in> fst ` set anns then map (\<lambda>(k, t). if k = v then (k, txt) else (k, t)) anns
      else anns @ [(v, txt)])"

text \<open>One iteration of the loop over the entries. \<^verbatim>\<open>categoryNames[i]\<close> is read
  without a test of the length of the list.\<close>

definition ReadColorTable_entry ::
  "GDALColorEntry list \<Rightarrow> string list option \<Rightarrow> int \<Rightarrow> vtkLookupTable \<Rightarrow> error + vtkLookupTable" where
  "ReadColorTable_entry entries categoryNames i colorTable =
     bindE (vec_at entries i) (\<lambda>gdalEntry.
       let r = real_of_int (c1 gdalEntry) / 255;
           g = real_of_int (c2 gdalEntry) / 255;
           b = real_of_int (c3 gdalEntry) / 255;
           a = real_of_int (c4 gdalEntry) / 255
       in
       bindE (vec_set (TableValues colorTable) i (r, g, b, a)) (\<lambda>tbl.
         let colorTable1 = colorTable\<lparr> TableValues := tbl \<rparr> in
         case categoryNames of
           Some names \<Rightarrow>
             bindE (vec_at names i) (\<lambda>nm.
               if length nm > 0
               then Inr (colorTable1\<lparr> Annotations := SetAnnotation i nm (Annotations colorTable1) \<rparr>)
               else Inr colorTable1)
         | None \<Rightarrow>
             Inr (colorTable1\<lparr> Annotations :=
                    SetAnnotation i (''Category '' @ to_string i) (Annotations colorTable1) \<rparr>)))"

definition ReadColorTable :: "'raw GDALRasterBand \<Rightarrow> vtkLookupTable \<Rightarrow> error + vtkLookupTable" where
  "ReadColorTable rasterBand colorTable =
     (case ColorTable rasterBand of
        None \<Rightarrow> Inl NullPointer
      | Some gdalTable \<Rightarrow>
          if PaletteInterpretation gdalTable \<noteq> GPI_RGB then Inr colorTable
          else
            let categoryNames = CategoryNames rasterBand;
                numEntries = int (length (ColorEntries gdalTable))
            in
            bindE (vec_resize (TableValues colorTable) numEntries (0, 0, 0, 0)) (\<lambda>tbl.
              for_loop [0..<nat numEntries]
                (\<lambda>i. ReadColorTable_entry (ColorEntries gdalTable) categoryNames (int i))
                (colorTable\<lparr> IndexedLookup := True, TableValues := tbl \<rparr>)))"

section \<open>ReadMetaData (lines 152-197)\<close>

text \<open>\<^verbatim>\<open>ReleaseData\<close> closes the previous dataset and leaves the pointer as it is; the
  next statement overwrites it.\<close>

definition ReadMetaData :: "'raw env \<Rightarrow> string \<Rightarrow> 'raw reader \<Rightarrow> 'raw reader" where
  "ReadMetaData e fileName s =
     (if fileName = PrevReadFileName s then s
      else
        case GDALOpen e fileName of
          None \<Rightarrow> s\<lparr> GDALData := None \<rparr>
        | Some ds \<Rightarrow>
            s\<lparr> GDALData := Some ds,
               PrevReadFileName := fileName,
               NumberOfBands := GetRasterCount ds,
               HasNoDataValue :=
                 take (nat (GetRasterCount ds)) (HasNoDataValue s)
                 @ replicate (nat (GetRasterCount ds) - length (HasNoDataValue s)) 0,
               NoDataValue :=
                 take (nat (GetRasterCount ds)) (NoDataValue s)
                 @ replicate (nat (GetRasterCount ds) - length (NoDataValue s)) 0,
               MetaData := DatasetMetadata ds,
               RasterDimensions := (RasterXSize ds, RasterYSize ds),
               DriverShortName := DatasetDriverShortName ds,
               DriverLongName := DatasetDriverLongName ds \<rparr>)"

section \<open>GenericReadData (lines 283-539)\<close>

text \<open>The local band variables of \<open>GenericReadData\<close>.\<close>

record 'raw band_roles =
  redBand :: "'raw GDALRasterBand option"
  redIndex :: int
  greenBand :: "'raw GDALRasterBand option"
  greenIndex :: int
  blueBand :: "'raw GDALRasterBand option"
  blueIndex :: int
  alphaBand :: "'raw GDALRasterBand option"
  alphaIndex :: int
  grayBand :: "'raw GDALRasterBand option"
  grayIndex :: int
  paletteBand :: "'raw GDALRasterBand option"
  paletteIndex :: int
  otherBands :: "'raw GDALRasterBand option list"
  otherIndex :: "int list"

definition no_roles :: "'raw band_roles" where
  "no_roles =
     \<lparr> redBand = None, redIndex = 0, greenBand = None, greenIndex = 0,
       blueBand = None, blueIndex = 0, alphaBand = None, alphaIndex = 0,
       grayBand = None, grayIndex = 0, paletteBand = None, paletteIndex = 0,
       otherBands = [], otherIndex = [] \<rparr>"

text \<open>Lines 315-354: the band joins \<^verbatim>\<open>otherBands\<close> and takes the first role that
  its colour interpretation names and that is still free.\<close>

definition assign_role :: "int \<Rightarrow> 'raw GDALRasterBand \<Rightarrow> 'raw band_roles \<Rightarrow> 'raw band_roles" where
  "assign_role i band r =
     (let rasterBand = Some band;
          r0 = r\<lparr> otherBands := otherBands r @ [rasterBand],
                  otherIndex := otherIndex r @ [i] \<rparr>;
          ci = ColorInterpretation band
      in
      if (ci = GCI_RedBand \<or> ci = GCI_YCbCr_YBand) \<and> redIndex r0 = 0
      then r0\<lparr> redBand := rasterBand, redIndex := i \<rparr>
      else if (ci = GCI_GreenBand \<or> ci = GCI_YCbCr_CbBand) \<and> greenIndex r0 = 0
      then r0\<lparr> greenBand := rasterBand, greenIndex := i \<rparr>
      else if (ci = GCI_BlueBand \<or> ci = GCI_YCbCr_CrBand) \<and> blueIndex r0 = 0
      then r0\<lparr> blueBand := rasterBand, blueIndex := i \<rparr>
      else if ci = GCI_AlphaBand \<and> alphaIndex r0 = 0
      then r0\<lparr> alphaBand := rasterBand, alphaIndex := i \<rparr>
      else if ci = GCI_GrayIndex \<and> grayIndex r0 = 0
      then r0\<lparr> grayBand := rasterBand, grayIndex := i \<rparr>
      else if ci = GCI_PaletteIndex \<and> paletteIndex r0 = 0
      then r0\<lparr> paletteBand := rasterBand, paletteIndex := i \<rparr>
      else r0)"

text \<open>The body of the loop over the bands (lines 310-355). The band pointer is used
  untested, and the two vectors are written at \<open>i - 1\<close> unchecked.\<close>

definition classify_band ::
  "int \<Rightarrow> 'raw reader \<times> 'raw band_roles \<Rightarrow> error + ('raw reader \<times> 'raw band_roles)" where
  "classify_band i sr =
     (case sr of (s, r) \<Rightarrow>
      case GDALData s of
        None \<Rightarrow> Inl NullPointer
      | Some ds \<Rightarrow>
          bindE (vec_set (HasNoDataValue s) (i - 1) 0) (\<lambda>_.
          case GetRasterBand ds i of
            None \<Rightarrow> Inl NullPointer
          | Some band \<Rightarrow>
              bindE (vec_set (HasNoDataValue s) (i - 1) (NoDataFlag band)) (\<lambda>has.
              bindE (vec_set (NoDataValue s) (i - 1) (NoDataVal band)) (\<lambda>nd.
              Inr (s\<lparr> HasNoDataValue := has, NoDataValue := nd \<rparr>, assign_role i band r)))))"

text \<open>\<^verbatim>\<open>otherBands[k - 1] = nullptr; otherIndex[k - 1] = 0;\<close>\<close>

definition take_band :: "int \<Rightarrow> 'raw band_roles \<Rightarrow> error + 'raw band_roles" where
  "take_band k r =
     bindE (vec_set (otherBands r) (k - 1) None) (\<lambda>ob.
     bindE (vec_set (otherIndex r) (k - 1) 0) (\<lambda>oi.
     Inr (r\<lparr> otherBands := ob, otherIndex := oi \<rparr>)))"

text \<open>
  \<^verbatim>\<open>sizeof(RAW_TYPE)\<close> for the instance that the switch of \<open>ReadData\<close> picks, and the
  value its first switch gives \<open>NumberOfBytesPerPixel\<close>.
\<close>

definition sizeof_RAW_TYPE :: "GDALDataType \<Rightarrow> int" where
  "sizeof_RAW_TYPE t =
     (case t of GDT_UInt16 \<Rightarrow> 2 | GDT_Int16 \<Rightarrow> 2 | GDT_UInt32 \<Rightarrow> 4 | GDT_Int32 \<Rightarrow> 4
      | GDT_Float32 \<Rightarrow> 4 | GDT_Float64 \<Rightarrow> 8 | _ \<Rightarrow> 1)"

definition bytes_per_pixel :: "GDALDataType \<Rightarrow> int" where
  "bytes_per_pixel t =
     (case t of GDT_Byte \<Rightarrow> 1 | GDT_UInt16 \<Rightarrow> 2 | GDT_Int16 \<Rightarrow> 2 | GDT_UInt32 \<Rightarrow> 4
      | GDT_Int32 \<Rightarrow> 4 | GDT_Float32 \<Rightarrow> 4 | GDT_Float64 \<Rightarrow> 8 | _ \<Rightarrow> 0)"

definition scalar_type_of :: "GDALDataType \<Rightarrow> vtkScalarType" where
  "scalar_type_of t =
     (case t of GDT_UInt16 \<Rightarrow> VTK_UNSIGNED_SHORT | GDT_Int16 \<Rightarrow> VTK_SHORT
      | GDT_UInt32 \<Rightarrow> VTK_UNSIGNED_INT | GDT_Int32 \<Rightarrow> VTK_INT
      | GDT_Float32 \<Rightarrow> VTK_FLOAT | GDT_Float64 \<Rightarrow> VTK_DOUBLE | _ \<Rightarrow> VTK_UNSIGNED_CHAR)"

text \<open>
  One \<^verbatim>\<open>RasterIO\<close> call and the \<^verbatim>\<open>assert(err == CE_None)\<close> after it. The read stores
  pixel \<open>k\<close> of the destination at element \<open>off + k\<close> of the buffer (the pixels are
  contiguous: the pixel spacing is the element size or 0, GDAL's default); a store
  past the end of the buffer is out of range. With \<^verbatim>\<open>NDEBUG\<close> the \<^verbatim>\<open>assert\<close> is
  empty and the status is dropped (\<^verbatim>\<open>(void)err; //unused\<close>); without it a failed
  \<^verbatim>\<open>assert\<close> ends the program.
\<close>

definition read_band ::
  "bool \<Rightarrow> 'raw GDALRasterBand \<Rightarrow> RasterIOArgs \<Rightarrow> int \<Rightarrow> 'raw list \<Rightarrow> error + 'raw list" where
  "read_band ndebug band args off buf =
     (case RasterIO band args of (err, px) \<Rightarrow>
      let npix = nat (nBufXSize args * nBufYSize args);
          stored = (\<lambda>k. px k \<noteq> None);
          inside = (\<lambda>k. 0 \<le> off + int k \<and> off + int k < int (length buf))
      in
      if list_ex (\<lambda>k. stored k \<and> \<not> inside k) [0..<npix] then Inl OutOfRange
      else
        let buf' = map (\<lambda>m. if off \<le> int m \<and> int m < off + int npix
                             then (case px (nat (int m - off)) of Some v \<Rightarrow> v | None \<Rightarrow> buf ! m)
                             else buf ! m) [0..<length buf]
        in if err \<noteq> CE_None \<and> \<not> ndebug then Inl AssertionFailed else Inr buf')"

definition RasterIO_args :: "'raw reader \<Rightarrow> int \<Rightarrow> int \<Rightarrow> RasterIOArgs" where
  "RasterIO_args s pixelSpace lineSpace =
     \<lparr> nXOff = fst (SourceOffset s), nYOff = snd (SourceOffset s),
       nXSize = fst (SourceDimensions s), nYSize = snd (SourceDimensions s),
       nBufXSize = fst (TargetDimensions s), nBufYSize = snd (TargetDimensions s),
       eBufType = TargetDataType s, nPixelSpace = pixelSpace, nLineSpace = lineSpace \<rparr>"

text \<open>The read of one band of the group into slot \<open>k\<close>, at byte offset
  \<^verbatim>\<open>k * bandSpace\<close>.\<close>

definition read_slot ::
  "'raw env \<Rightarrow> 'raw reader \<Rightarrow> int \<Rightarrow> int \<Rightarrow> 'raw GDALRasterBand option \<times> int \<Rightarrow> 'raw list \<Rightarrow>
   error + 'raw list" where
  "read_slot e s pixelSpace lineSpace bk buf =
     (case bk of (b, k) \<Rightarrow>
      case b of
        None \<Rightarrow> Inl NullPointer
      | Some band \<Rightarrow>
          let bandSpace = fst (TargetDimensions s) * snd (TargetDimensions s)
                          * NumberOfBytesPerPixel s
          in read_band (NDEBUG e) band (RasterIO_args s pixelSpace lineSpace)
               (k * bandSpace div sizeof_RAW_TYPE (TargetDataType s)) buf)"

text \<open>
  The choice of the primary group and its reads (lines 371-496): the reader with
  \<open>NumberOfScalarComponents\<close> set, the band variables, \<^verbatim>\<open>groupIndex\<close>, the pixel
  buffer and the colour table. The buffer is resized to the slot count times
  \<^verbatim>\<open>destWidth * destHeight * pixelSpace\<close> elements. The RGB group without alpha
  passes 0 for both spacings.
\<close>

definition read_primary_group ::
  "'raw::zero env \<Rightarrow> 'raw reader \<Rightarrow> 'raw band_roles \<Rightarrow>
   error + ('raw reader \<times> 'raw band_roles \<times> int list \<times> 'raw list \<times> vtkLookupTable)" where
  "read_primary_group e s r =
     (let destWidth = fst (TargetDimensions s);
          destHeight = snd (TargetDimensions s);
          pixelSpace = NumberOfBytesPerPixel s;
          lineSpace = destWidth * pixelSpace;
          colorTable = new_vtkLookupTable
      in
      if redBand r \<noteq> None \<and> greenBand r \<noteq> None \<and> blueBand r \<noteq> None then
        bindE (take_band (redIndex r) r) (\<lambda>r1.
        bindE (take_band (greenIndex r) r1) (\<lambda>r2.
        bindE (take_band (blueIndex r) r2) (\<lambda>r3.
        if alphaBand r \<noteq> None then
          bindE (take_band (alphaIndex r) r3) (\<lambda>r4.
          bindE (vec_resize [] (4 * destWidth * destHeight * pixelSpace) 0) (\<lambda>raw0.
          bindE (for_loop [(redBand r, 0), (greenBand r, 1), (blueBand r, 2), (alphaBand r, 3)]
                   (read_slot e s pixelSpace lineSpace) raw0) (\<lambda>raw.
          Inr (s\<lparr> NumberOfScalarComponents := 4 \<rparr>, r4,
               [redIndex r, greenIndex r, blueIndex r, alphaIndex r], raw, colorTable))))
        else
          bindE (vec_resize [] (3 * destWidth * destHeight * pixelSpace) 0) (\<lambda>raw0.
          bindE (for_loop [(redBand r, 0), (greenBand r, 1), (blueBand r, 2)]
                   (read_slot e s 0 0) raw0) (\<lambda>raw.
          Inr (s\<lparr> NumberOfScalarComponents := 3 \<rparr>, r3,
               [redIndex r, greenIndex r, blueIndex r], raw, colorTable))))))
      else if grayBand r \<noteq> None then
        bindE (take_band (grayIndex r) r) (\<lambda>r1.
        if alphaBand r \<noteq> None then
          bindE (take_band (alphaIndex r) r1) (\<lambda>r2.
          bindE (vec_resize [] (2 * destWidth * destHeight * pixelSpace) 0) (\<lambda>raw0.
          bindE (for_loop [(grayBand r, 0), (alphaBand r, 1)]
                   (read_slot e s pixelSpace lineSpace) raw0) (\<lambda>raw.
          Inr (s\<lparr> NumberOfScalarComponents := 2 \<rparr>, r2,
               [grayIndex r, alphaIndex r], raw, colorTable))))
        else
          bindE (vec_resize [] (destWidth * destHeight * pixelSpace) 0) (\<lambda>raw0.
          bindE (for_loop [(grayBand r, 0)] (read_slot e s pixelSpace lineSpace) raw0) (\<lambda>raw.
          Inr (s\<lparr> NumberOfScalarComponents := 1 \<rparr>, r1, [grayIndex r], raw, colorTable))))
      else if paletteBand r \<noteq> None then
        bindE (take_band (paletteIndex r) r) (\<lambda>r1.
        bindE (vec_resize [] (destWidth * destHeight * pixelSpace) 0) (\<lambda>raw0.
        bindE (for_loop [(paletteBand r, 0)] (read_slot e s pixelSpace lineSpace) raw0) (\<lambda>raw.
        case paletteBand r of
          None \<Rightarrow> Inl NullPointer
        | Some band \<Rightarrow>
            bindE (ReadColorTable band colorTable) (\<lambda>colorTable'.
            Inr (s\<lparr> NumberOfScalarComponents := 1 \<rparr>, r1, [paletteIndex r], raw,
                 colorTable')))))
      else Inr (s, r, [], [], colorTable))"

text \<open>The geospatial spacing of lines 500-504: \<^verbatim>\<open>d[4]\<close>, \<^verbatim>\<open>d[5]\<close> are the corner
  opposite to \<^verbatim>\<open>d[0]\<close>, \<^verbatim>\<open>d[1]\<close>.\<close>

definition geoSpacing :: "'raw reader \<Rightarrow> real \<times> real \<times> real" where
  "geoSpacing s =
     (case CornerPoints s of (p0, p2, p4, p6) \<Rightarrow>
        ((fst p4 - fst p0) / real_of_int (fst (RasterDimensions s)),
         (snd p4 - snd p0) / real_of_int (snd (RasterDimensions s)),
         1))"

fun array_index :: "string \<Rightarrow> 'raw vtkDataArray list \<Rightarrow> nat option" where
  "array_index nm [] = None"
| "array_index nm (a # as) =
     (if Name a = nm then Some 0 else map_option Suc (array_index nm as))"

definition SetActiveScalars :: "string \<Rightarrow> 'raw vtkUniformGrid \<Rightarrow> 'raw vtkUniformGrid" where
  "SetActiveScalars nm g = g\<lparr> ActiveScalars := array_index nm (CellArrays g) \<rparr>"

text \<open>The body of the loop over the residual bands (lines 515-531), on the reader,
  \<^verbatim>\<open>groupIndex\<close> and the buffer.\<close>

definition other_band ::
  "'raw::zero env \<Rightarrow> 'raw band_roles \<Rightarrow> bool \<Rightarrow> bool \<Rightarrow> nat \<Rightarrow>
   'raw reader \<times> int list \<times> 'raw list \<Rightarrow> error + ('raw reader \<times> int list \<times> 'raw list)" where
  "other_band e r flipX flipY i sgb =
     (case sgb of (s, groupIndex, raw) \<Rightarrow>
      bindE (vec_at (otherBands r) (int i)) (\<lambda>ob.
      case ob of
        None \<Rightarrow> Inr (s, groupIndex, raw)
      | Some band \<Rightarrow>
          let destWidth = fst (TargetDimensions s);
              destHeight = snd (TargetDimensions s);
              pixelSpace = NumberOfBytesPerPixel s;
              lineSpace = destWidth * pixelSpace
          in
          bindE (vec_at (otherIndex r) (int i)) (\<lambda>oi.
          bindE (vec_set groupIndex 0 oi) (\<lambda>groupIndex'.
          bindE (read_band (NDEBUG e) band (RasterIO_args s pixelSpace lineSpace) 0 raw) (\<lambda>raw'.
          bindE (Convert (static_cast_raw e) s raw' destWidth destHeight groupIndex'
                   (''band_'' @ to_string oi) flipX flipY) (\<lambda>s'.
          Inr (s', groupIndex', raw')))))))"

definition set_grid_geometry :: "'raw reader \<Rightarrow> 'raw vtkUniformGrid \<Rightarrow> 'raw vtkUniformGrid" where
  "set_grid_geometry s g =
     (case CornerPoints s of (p0, p2, p4, p6) \<Rightarrow>
      case geoSpacing s of (sx, sy, sz) \<Rightarrow>
        g\<lparr> Extent := (0, fst (TargetDimensions s), 0, snd (TargetDimensions s), 0, 0),
           Spacing := (\<bar>sx\<bar>, \<bar>sy\<bar>, sz),
           Origin := (min (fst p0) (fst p4), min (snd p0) (snd p4), 0) \<rparr>)"

text \<open>Lines 533-538: the active scalars are renamed and given the colour table.\<close>

definition name_categories ::
  "vtkLookupTable \<Rightarrow> 'raw vtkUniformGrid \<Rightarrow> error + 'raw vtkUniformGrid" where
  "name_categories colorTable g =
     (case ActiveScalars g of
        None \<Rightarrow> Inl NullPointer
      | Some k \<Rightarrow>
          bindE (vec_at (CellArrays g) (int k)) (\<lambda>a.
          Inr (g\<lparr> CellArrays :=
                 (CellArrays g)[k := a\<lparr> Name := ''Categories'',
                                         LookupTable := Some colorTable \<rparr>] \<rparr>)))"

text \<open>Lines 533-538, on what the loop over the residual bands has left.\<close>

definition finish_grid ::
  "'raw band_roles \<Rightarrow> vtkLookupTable \<Rightarrow> 'raw reader \<times> int list \<times> 'raw list \<Rightarrow>
   error + 'raw reader" where
  "finish_grid r colorTable sgb =
     (case sgb of (s7, _, _) \<Rightarrow>
        if paletteBand r \<noteq> None then
          (case UniformGridData s7 of
             None \<Rightarrow> Inl NullPointer
           | Some grid7 \<Rightarrow>
               bindE (name_categories colorTable grid7) (\<lambda>grid8.
               Inr (s7\<lparr> UniformGridData := Some grid8 \<rparr>)))
        else Inr s7)"

text \<open>Lines 500-538, on the reader as the corner points have left it: the geometry
  of the grid, the array of the primary group, one array per residual band, and the
  colour table when there is a palette band.\<close>

definition convert_bands ::
  "'raw::zero env \<Rightarrow> 'raw band_roles \<Rightarrow> int list \<Rightarrow> 'raw list \<Rightarrow> vtkLookupTable \<Rightarrow>
   'raw reader \<Rightarrow> error + 'raw reader" where
  "convert_bands e r groupIndex raw colorTable s3 =
     (case UniformGridData s3 of
        None \<Rightarrow> Inl NullPointer
      | Some grid \<Rightarrow>
         let destWidth = fst (TargetDimensions s3);
             destHeight = snd (TargetDimensions s3);
             pixelSpace = NumberOfBytesPerPixel s3;
             flipX = (fst (geoSpacing s3) < 0);
             flipY = (fst (snd (geoSpacing s3)) < 0);
             s4 = s3\<lparr> UniformGridData := Some (set_grid_geometry s3 grid) \<rparr>
         in
         bindE (Convert (static_cast_raw e) s4 raw destWidth destHeight groupIndex
                  ''Elevation'' flipX flipY) (\<lambda>s5.
         let s6 = s5\<lparr> UniformGridData :=
                       map_option (SetActiveScalars ''Elevation'') (UniformGridData s5) \<rparr>
         in
         bindE (vec_resize groupIndex 1 0) (\<lambda>groupIndex1.
         bindE (vec_resize raw (destWidth * destHeight * pixelSpace) 0) (\<lambda>raw1.
         bindE (for_loop [0..<length (otherBands r)] (other_band e r flipX flipY)
                  (s6, groupIndex1, raw1))
           (finish_grid r colorTable)))))"

text \<open>The band variables that \<open>convert_bands\<close> receives are those left by the choice
  of the primary group: its bands are struck from \<^verbatim>\<open>otherBands\<close>, and
  \<^verbatim>\<open>paletteBand\<close> is as the loop over the bands set it.\<close>

definition GenericReadData :: "'raw::zero env \<Rightarrow> 'raw reader \<Rightarrow> error + 'raw reader" where
  "GenericReadData e s =
     bindE (for_loop [1..NumberOfBands s] classify_band (s, no_roles)) (\<lambda>sr.
     case sr of (s1, r) \<Rightarrow>
     bindE (read_primary_group e s1 r) (\<lambda>g.
     case g of (s2, r', groupIndex, raw, colorTable) \<Rightarrow>
     bindE (GetGeoCornerPoints s2) (convert_bands e r' groupIndex raw colorTable)))"

section \<open>ReadData (lines 200-280)\<close>

text \<open>
  The pixel type is fixed the first time (\<open>NumberOfBytesPerPixel = 0\<close>) from band 1,
  whose pointer is not tested. The second switch picks the scalar type and the
  instance of \<open>GenericReadData\<close>; the instances differ in \<^verbatim>\<open>RAW_TYPE\<close> only, which
  is the type variable here.
\<close>

definition fix_pixel_type :: "'raw GDALDataset \<Rightarrow> 'raw reader \<Rightarrow> error + 'raw reader" where
  "fix_pixel_type ds s =
     (let rasterBand = GetRasterBand ds 1 in
      if NumberOfBytesPerPixel s = 0
      then (case rasterBand of
              None \<Rightarrow> Inl NullPointer
            | Some band \<Rightarrow>
                Inr (s\<lparr> TargetDataType := RasterDataType band,
                        NumberOfBytesPerPixel := bytes_per_pixel (RasterDataType band) \<rparr>))
      else Inr s)"

definition ReadData :: "'raw::zero env \<Rightarrow> string \<Rightarrow> 'raw reader \<Rightarrow> error + 'raw reader" where
  "ReadData e fileName s =
     (case GDALData s of
        None \<Rightarrow> Inr s
      | Some ds \<Rightarrow>
          bindE (fix_pixel_type ds s) (\<lambda>s1.
          GenericReadData e
            (s1\<lparr> UniformGridData := Some new_vtkUniformGrid,
                 NumberOfCells := 0,
                 DataScalarType := scalar_type_of (TargetDataType s1) \<rparr>)))"

section \<open>RequestData (lines 889-963)\<close>

datatype pipeline_output = NoInformationObject | NoDataObject | DataObject

fun AddField :: "field_array \<Rightarrow> field_array list \<Rightarrow> field_array list" where
  "AddField f [] = [f]"
| "AddField f (a # as) =
     (if (case a of StringField n _ \<Rightarrow> n | DoubleField n _ \<Rightarrow> n)
         = (case f of StringField n _ \<Rightarrow> n | DoubleField n _ \<Rightarrow> n)
      then f # as else a # AddField f as)"

text \<open>One entry of \<^verbatim>\<open>NO_DATA_VALUE\<close>; \<open>None\<close> stands for NaN.\<close>

definition no_data_entry :: "'raw GDALDataset \<Rightarrow> nat \<Rightarrow> real option list \<Rightarrow> error + real option list" where
  "no_data_entry ds i acc =
     (case GetRasterBand ds (int i + 1) of
        None \<Rightarrow> Inl NullPointer
      | Some band \<Rightarrow>
          Inr (acc @ [if NoDataFlag band = 0 then None else Some (NoDataVal band)]))"

text \<open>
  Lines 899-962, after the call of \<open>ReadData\<close>. The result is the return value, the
  grid copied into the output data object (if any) and the reader.
\<close>

definition publish_grid ::
  "'raw env \<Rightarrow> pipeline_output \<Rightarrow> 'raw reader \<Rightarrow>
   error + (int \<times> 'raw vtkUniformGrid option \<times> 'raw reader)" where
  "publish_grid e out s1 =
     (case GDALData s1 of
        None \<Rightarrow> Inr (0, None, s1)
      | Some ds \<Rightarrow>
          let s2 = s1\<lparr> Projection := exportToProj4 e (ProjectionRef ds) \<rparr> in
          (case UniformGridData s2 of
             None \<Rightarrow> Inl NullPointer
           | Some g \<Rightarrow>
               let g1 = g\<lparr> FieldData :=
                           AddField (StringField ''MAP_PROJECTION'' [Projection s2])
                             (FieldData g) \<rparr>
               in
               bindE (for_loop [0..<nat (NumberOfBands s2)] (no_data_entry ds) [])
                 (\<lambda>noData.
               let g2 = g1\<lparr> FieldData :=
                             AddField (DoubleField ''NO_DATA_VALUE'' noData)
                               (FieldData g1) \<rparr>;
                   s3 = s2\<lparr> UniformGridData := Some g2 \<rparr>
               in
               case out of
                 NoInformationObject \<Rightarrow> Inr (0, None, s3)
               | NoDataObject \<Rightarrow> Inr (0, None, s3)
               | DataObject \<Rightarrow> Inr (1, Some g2, s3))))"

text \<open>\<open>ReadData\<close> takes the file name as a \<^verbatim>\<open>std::string\<close>, which cannot be built
  from a null \<^verbatim>\<open>FileName\<close>.\<close>

definition RequestData ::
  "'raw::zero env \<Rightarrow> pipeline_output \<Rightarrow> 'raw reader \<Rightarrow>
   error + (int \<times> 'raw vtkUniformGrid option \<times> 'raw reader)" where
  "RequestData e out s =
     (case FileName s of
        None \<Rightarrow> Inl NullPointer
      | Some fileName \<Rightarrow> bindE (ReadData e fileName s) (publish_grid e out))"

section \<open>RequestInformation (lines 966-1088)\<close>

text \<open>
  The \<^verbatim>\<open>int\<close> arithmetic of this method is applied to whatever extent the caller
  has set. Signed overflow is undefined in C++; the model takes the two's-complement
  result that the usual targets give.
\<close>

definition wrap32 :: "int \<Rightarrow> int" where
  "wrap32 x = (x + 2147483648) mod 4294967296 - 2147483648"

text \<open>\<^verbatim>\<open>Min\<close> and \<^verbatim>\<open>Max\<close> of lines 56-64, on doubles, and the conversion of their
  result back to \<^verbatim>\<open>int\<close> (truncation).\<close>

definition Min_double :: "real \<Rightarrow> real \<Rightarrow> real" where
  "Min_double val1 val2 = (if val1 < val2 then val1 else val2)"

definition Max_double :: "real \<Rightarrow> real \<Rightarrow> real" where
  "Max_double val1 val2 = (if val1 > val2 then val1 else val2)"

definition int_of_double :: "real \<Rightarrow> int" where
  "int_of_double d = (if d < 0 then \<lceil>d\<rceil> else \<lfloor>d\<rfloor>)"

text \<open>Lines 1015-1054: the source window from the raster dimensions and the extent.\<close>

definition compute_window ::
  "int \<times> int \<Rightarrow> int \<times> int \<times> int \<times> int \<times> int \<times> int \<Rightarrow> (int \<times> int) \<times> (int \<times> int)" where
  "compute_window rd de =
     (case rd of (RW, RH) \<Rightarrow>
      case de of (e0, e1, e2, e3, e4, e5) \<Rightarrow>
      let off0 = e0;
          off1 = wrap32 (RH - wrap32 (e3 + 1));
          dim0 = wrap32 (wrap32 (e1 - e0) + 1);
          dim1 = wrap32 (wrap32 (e3 - e2) + 1);
          off0a = int_of_double (Min_double (real_of_int RW) (real_of_int off0));
          off0b = int_of_double (Max_double 0 (real_of_int off0a));
          off1a = int_of_double (Min_double (real_of_int RH) (real_of_int off1));
          off1b = int_of_double (Max_double 0 (real_of_int off1a));
          dim0a = int_of_double (Max_double 0 (real_of_int dim0));
          dim0b = (if wrap32 (dim0a + off0b) > RW then wrap32 (RW - off0b) else dim0a);
          dim1a = int_of_double (Max_double 0 (real_of_int dim1));
          dim1b = (if wrap32 (dim1a + off1b) > RH then wrap32 (RH - off1b) else dim1a)
      in ((off0b, off1b), (dim0b, dim1b)))"

record out_information =
  WHOLE_EXTENT :: "int \<times> int \<times> int \<times> int \<times> int \<times> int"
  SPACING :: "real \<times> real \<times> real"
  ORIGIN :: "real \<times> real \<times> real"
  MAP_PROJECTION :: string

text \<open>The result is the return value, the reader, and what is set in the output
  information object.\<close>

definition RequestInformation ::
  "'raw env \<Rightarrow> bool \<Rightarrow> 'raw reader \<Rightarrow> int \<times> 'raw reader \<times> out_information option" where
  "RequestInformation e outInfo s =
     (if \<not> outInfo then (0, s, None)
      else
        case FileName s of
          None \<Rightarrow> (0, s, None)
        | Some fileName \<Rightarrow>
            let s1 = ReadMetaData e fileName s in
            (case GDALData s1 of
               None \<Rightarrow> (0, s1, None)
             | Some ds \<Rightarrow>
                 if fst (RasterDimensions s1) \<le> 0 \<and> snd (RasterDimensions s1) \<le> 0
                 then (0, s1, None)
                 else
                   let s2 = (if TargetDimensions s1 = (-1, -1)
                             then s1\<lparr> TargetDimensions := RasterDimensions s1 \<rparr> else s1);
                       RW = fst (RasterDimensions s2);
                       RH = snd (RasterDimensions s2);
                       s3 = (if fst (DataExtent s2) = -1
                             then s2\<lparr> DataExtent :=
                                       (0, wrap32 (RW - 1), 0, wrap32 (RH - 1), 0, 0) \<rparr>
                             else s2);
                       w = compute_window (RasterDimensions s3) (DataExtent s3);
                       off = fst w;
                       dim = snd w;
                       x0 = fst off;
                       x1 = wrap32 (wrap32 (x0 + fst dim) - 1);
                       y3 = wrap32 (wrap32 (RH - snd off) - 1);
                       y2 = wrap32 (wrap32 (y3 - snd dim) + 1);
                       t = GeoTransformValue ds;
                       s4 = s3\<lparr> SourceOffset := off, SourceDimensions := dim,
                               DataExtent := (x0, x1, y2, y3, 0, 0),
                               DataOrigin := (adf0 t, adf3 t, 0),
                               DataSpacing := (adf1 t, adf5 t, 0) \<rparr>
                   in (1, s4,
                       Some \<lparr> WHOLE_EXTENT = DataExtent s4, SPACING = DataSpacing s4,
                              ORIGIN = DataOrigin s4, MAP_PROJECTION = ProjectionRef ds \<rparr>)))"

section \<open>The spec's formulas\<close>

text \<open>The affine geotransform as section 4.5 of the spec words it:
  \<^verbatim>\<open>geoX = a0 + a1*px + a2*py; geoY = a3 + a4*px + a5*py\<close>.\<close>

definition spec_affine :: "GeoTransform \<Rightarrow> real \<Rightarrow> real \<Rightarrow> point2" where
  "spec_affine t px py =
     (adf0 t + adf1 t * px + adf2 t * py, adf3 t + adf4 t * px + adf5 t * py)"

section \<open>Concrete datasets\<close>

text \<open>
  Small datasets on which the reader is run below. The pixel type is \<^typ>\<open>int\<close>
  (an integer raster), and \<^verbatim>\<open>static_cast\<close> truncates. A band delivers the listed
  pixels in row-major order when its read succeeds and stores nothing when it fails.
\<close>

definition ex_geo :: "real \<Rightarrow> real \<Rightarrow> GeoTransform" where
  "ex_geo dx dy = \<lparr> adf0 = 0, adf1 = dx, adf2 = 0, adf3 = 0, adf4 = 0, adf5 = dy \<rparr>"

definition ex_band ::
  "GDALColorInterp \<Rightarrow> CPLErr \<Rightarrow> int list \<Rightarrow> int \<Rightarrow> real \<Rightarrow> int GDALRasterBand" where
  "ex_band ci err px flag nd =
     \<lparr> RasterDataType = GDT_Byte, ColorInterpretation = ci, NoDataFlag = flag, NoDataVal = nd,
       RasterIO = (\<lambda>a. (err, \<lambda>k. if err = CE_None \<and> k < length px then Some (px ! k) else None)),
       ColorTable = None, CategoryNames = None \<rparr>"

definition ex_dataset ::
  "int \<Rightarrow> int \<Rightarrow> GeoTransform \<Rightarrow> int GDALRasterBand list \<Rightarrow> int GDALDataset" where
  "ex_dataset w h geo bands =
     \<lparr> RasterXSize = w, RasterYSize = h, RasterBands = bands,
       GCPProjection = None, GCPs = None, GeoTransformStatus = CE_None,
       GeoTransformValue = geo, ProjectionRef = ''WGS84'', DatasetMetadata = [],
       DatasetDriverShortName = ''GTiff'', DatasetDriverLongName = ''GeoTIFF'' \<rparr>"

definition ex_env :: "bool \<Rightarrow> int GDALDataset \<Rightarrow> int env" where
  "ex_env nd ds =
     \<lparr> GDALOpen = (\<lambda>f. if f = ''a.tif'' then Some ds else None),
       exportToProj4 = (\<lambda>p. ''+proj=longlat''), NDEBUG = nd,
       static_cast_raw = int_of_double \<rparr>"

definition ex_reader :: "int reader" where
  "ex_reader = new_vtkGDALRasterReader\<lparr> FileName := Some ''a.tif'' \<rparr>"

text \<open>The reader after one Describe of \<^verbatim>\<open>a.tif\<close>.\<close>

definition described :: "int env \<Rightarrow> int reader" where
  "described e = fst (snd (RequestInformation e True ex_reader))"

text \<open>Two cells in one row, a gray band without no-data and an alpha band whose
  no-data value 0 is the alpha of the first cell.\<close>

definition ds_gray_alpha :: "int GDALDataset" where
  "ds_gray_alpha = ex_dataset 2 1 (ex_geo 1 1)
     [ex_band GCI_GrayIndex CE_None [5, 6] 0 0, ex_band GCI_AlphaBand CE_None [0, 9] 1 0]"

text \<open>One cell, gray 5 and alpha 0; the alpha band declares the no-data value 0
  when \<open>flag\<close> is 1.\<close>

definition ds_one_cell :: "int \<Rightarrow> int GDALDataset" where
  "ds_one_cell flag = ex_dataset 1 1 (ex_geo 1 1)
     [ex_band GCI_GrayIndex CE_None [5] 0 0, ex_band GCI_AlphaBand CE_None [0] flag 0]"

definition ds_no_bands :: "int GDALDataset" where
  "ds_no_bands = ex_dataset 2 2 (ex_geo 1 1) []"

text \<open>A gray band whose windowed read reports \<^verbatim>\<open>CE_Failure\<close>.\<close>

definition ds_failing :: "int GDALDataset" where
  "ds_failing = ex_dataset 2 1 (ex_geo 1 1) [ex_band GCI_GrayIndex CE_Failure [5, 6] 0 0]"

definition ds_ten :: "int GDALDataset" where
  "ds_ten = ex_dataset 10 10 (ex_geo 1 1) [ex_band GCI_GrayIndex CE_None [] 0 0]"


definition ds_north_up :: "int GDALDataset" where
  "ds_north_up = ex_dataset 2 2 (ex_geo 1 (-1))
     [ex_band GCI_GrayIndex CE_None [10, 20, 30, 40] 0 0]"


definition ds_affine :: "int GDALDataset" where
  "ds_affine =
     ex_dataset 3 2 \<lparr> adf0 = 100, adf1 = 1, adf2 = 0, adf3 = 200, adf4 = 0, adf5 = -1 \<rparr> []"

definition affine_reader :: "int reader" where
  "affine_reader =
     new_vtkGDALRasterReader\<lparr> GDALData := Some ds_affine, RasterDimensions := (3, 2) \<rparr>"

text \<open>A palette band with two RGB entries; the category name of entry 0 is empty.\<close>

definition pal_table :: GDALColorTable where
  "pal_table =
     \<lparr> PaletteInterpretation = GPI_RGB,
       ColorEntries = [\<lparr> c1 = 255, c2 = 0, c3 = 0, c4 = 255 \<rparr>,
                       \<lparr> c1 = 0, c2 = 0, c3 = 255, c4 = 255 \<rparr>] \<rparr>"

definition pal_band :: "int GDALRasterBand" where
  "pal_band =
     (ex_band GCI_PaletteIndex CE_None [0, 1] 0 0)
       \<lparr> ColorTable := Some pal_table, CategoryNames := Some [[], ''water''] \<rparr>"

section \<open>Vocabulary of the proofs\<close>






text \<open>The colour of an entry as section 4.6 of the spec words it (channels divided by
  255), the annotation that \<open>ReadColorTable\<close> gives entry \<open>i\<close>, and the invariant of its
  loop.\<close>

definition spec_entry_color :: "GDALColorEntry \<Rightarrow> real \<times> real \<times> real \<times> real" where
  "spec_entry_color en =
     (real_of_int (c1 en) / 255, real_of_int (c2 en) / 255,
      real_of_int (c3 en) / 255, real_of_int (c4 en) / 255)"

definition entry_annotation :: "string list option \<Rightarrow> nat \<Rightarrow> string option" where
  "entry_annotation categoryNames i =
     (case categoryNames of
        None \<Rightarrow> Some (''Category '' @ to_string (int i))
      | Some names \<Rightarrow> (if names ! i \<noteq> [] then Some (names ! i) else None))"

definition table_built ::
  "GDALColorEntry list \<Rightarrow> string list option \<Rightarrow> nat \<Rightarrow> vtkLookupTable \<Rightarrow> bool" where
  "table_built entries categoryNames k ct \<longleftrightarrow>
     length (TableValues ct) = length entries
     \<and> fst ` set (Annotations ct) \<subseteq> {0..<int k}
     \<and> (\<forall>i<k. TableValues ct ! i = spec_entry_color (entries ! i)
               \<and> map_of (Annotations ct) (int i) = entry_annotation categoryNames i)"

text \<open>Band \<open>k\<close> is settled in a reader when the two no-data vectors hold at \<open>k - 1\<close>
  what the band answers; readers have the same bands, window or inputs when they agree
  on the fields that a Produce reads before it writes them.\<close>

definition settled_at :: "int \<Rightarrow> 'raw reader \<Rightarrow> bool" where
  "settled_at k s \<longleftrightarrow>
     (\<exists>ds band. GDALData s = Some ds \<and> GetRasterBand ds k = Some band
        \<and> HasNoDataValue s ! nat (k - 1) = NoDataFlag band
        \<and> NoDataValue s ! nat (k - 1) = NoDataVal band)"

definition same_bands :: "'raw reader \<Rightarrow> 'raw reader \<Rightarrow> bool" where
  "same_bands s t \<longleftrightarrow>
     GDALData t = GDALData s \<and> length (HasNoDataValue t) = length (HasNoDataValue s)
     \<and> length (NoDataValue t) = length (NoDataValue s)"

definition same_window :: "'raw reader \<Rightarrow> 'raw reader \<Rightarrow> bool" where
  "same_window s t \<longleftrightarrow>
     TargetDimensions t = TargetDimensions s
     \<and> NumberOfBytesPerPixel t = NumberOfBytesPerPixel s
     \<and> TargetDataType t = TargetDataType s
     \<and> SourceOffset t = SourceOffset s
     \<and> SourceDimensions t = SourceDimensions s"

definition same_inputs :: "'raw reader \<Rightarrow> 'raw reader \<Rightarrow> bool" where
  "same_inputs s t \<longleftrightarrow>
     GDALData t = GDALData s \<and> NumberOfBands t = NumberOfBands s
     \<and> RasterDimensions t = RasterDimensions s \<and> same_window s t
     \<and> FileName t = FileName s \<and> DataScalarType t = DataScalarType s"

text \<open>The component count that the choice of the primary group sets, if any.\<close>

definition primary_components :: "'raw band_roles \<Rightarrow> int option" where
  "primary_components r =
     (if redBand r \<noteq> None \<and> greenBand r \<noteq> None \<and> blueBand r \<noteq> None
      then (if alphaBand r \<noteq> None then Some 4 else Some 3)
      else if grayBand r \<noteq> None then (if alphaBand r \<noteq> None then Some 2 else Some 1)
      else if paletteBand r \<noteq> None then Some 1 else None)"

definition set_components :: "int option \<Rightarrow> 'raw reader \<Rightarrow> 'raw reader" where
  "set_components k s = (case k of None \<Rightarrow> s | Some n \<Rightarrow> s\<lparr> NumberOfScalarComponents := n \<rparr>)"

text \<open>\<open>only_grid s s'\<close>: the readers differ at most in the grid and the live-cell
  count. \<open>with_Projection\<close> is the assignment of \<open>RequestData\<close> to \<open>Projection\<close>.\<close>

definition only_grid :: "'raw reader \<Rightarrow> 'raw reader \<Rightarrow> bool" where
  "only_grid s s' \<longleftrightarrow>
     s' = s\<lparr> UniformGridData := UniformGridData s', NumberOfCells := NumberOfCells s' \<rparr>"

definition with_Projection :: "string \<Rightarrow> 'raw reader \<Rightarrow> 'raw reader" where
  "with_Projection p s = s\<lparr> Projection := p \<rparr>"

text \<open>
  The datasets that \<^verbatim>\<open>GDALOpen\<close> returns for a sequence of file names, in order: the
  last one is the dataset opened last. \<open>sized_for e files s\<close>: the reader holds the name
  and the band count of that dataset and a no-data vector of that length, or is as
  constructed when no file of the sequence opens.
\<close>

definition opened_datasets :: "'raw env \<Rightarrow> string list \<Rightarrow> 'raw GDALDataset list" where
  "opened_datasets e files = List.map_filter (GDALOpen e) files"

definition sized_for :: "'raw env \<Rightarrow> string list \<Rightarrow> 'raw reader \<Rightarrow> bool" where
  "sized_for e files s \<longleftrightarrow>
     (if opened_datasets e files = []
      then PrevReadFileName s = [] \<and> NumberOfBands s = 0 \<and> NoDataValue s = []
      else GDALOpen e (PrevReadFileName s) = Some (last (opened_datasets e files))
           \<and> NumberOfBands s = GetRasterCount (last (opened_datasets e files))
           \<and> length (NoDataValue s) = length (RasterBands (last (opened_datasets e files))))"

section \<open>Loops and errors\<close>

lemma bindE_Inr_iff: "bindE m f = Inr y \<longleftrightarrow> (\<exists>x. m = Inr x \<and> f x = Inr y)"
  by (cases m) (simp_all add: bindE_def)

lemma bindE_simps [simp]: "bindE (Inr x) f = f x" "bindE (Inl e) f = Inl e"
  by (simp_all add: bindE_def)

lemma for_loop_upt_from:
  assumes step: "\<And>k b b'. m0 \<le> k \<Longrightarrow> k < N \<Longrightarrow> Q k b \<Longrightarrow> body k b = Inr b' \<Longrightarrow> Q (Suc k) b'"
  shows "m0 \<le> m \<Longrightarrow> m \<le> N \<Longrightarrow> Q m a \<Longrightarrow> for_loop [m..<N] body a = Inr a' \<Longrightarrow> Q N a'"
proof (induction "N - m" arbitrary: m a)
  case 0
  then show ?case by simp
next
  case (Suc d)
  then have lt: "m < N" by simp
  then have "[m..<N] = m # [Suc m..<N]" by (simp add: upt_conv_Cons)
  with Suc.prems(4) obtain b where b: "body m a = Inr b"
    and rest: "for_loop [Suc m..<N] body b = Inr a'"
    by (auto simp: bindE_Inr_iff)
  have "Q (Suc m) b" using step [OF Suc.prems(1) lt Suc.prems(3) b] .
  moreover have "d = N - Suc m" using Suc.hyps(2) by simp
  ultimately show ?case using Suc.hyps(1) [of "Suc m" b] rest lt Suc.prems(1) by simp
qed

lemma for_loop_upt_rule:
  assumes "for_loop [0..<N] body a = Inr a'" and "Q 0 a"
    and "\<And>k b b'. k < N \<Longrightarrow> Q k b \<Longrightarrow> body k b = Inr b' \<Longrightarrow> Q (Suc k) b'"
  shows "Q N a'"
  using for_loop_upt_from [of 0 N Q body 0 a a'] assms by simp

lemma for_loop_invariant:
  assumes "for_loop ks body a = Inr a'" and "P a"
    and "\<And>k b b'. k \<in> set ks \<Longrightarrow> P b \<Longrightarrow> body k b = Inr b' \<Longrightarrow> P b'"
  shows "P a'"
  using assms by (induction ks arbitrary: a) (auto simp: bindE_Inr_iff)

lemma map_sum_bindE:
  "map_sum id U (bindE m f) = bindE m (\<lambda>x. map_sum id U (f x))"
  by (cases m) simp_all

lemma for_loop_commute:
  assumes "\<And>k a. k \<in> set ks \<Longrightarrow> body k (U a) = map_sum id U (body k a)"
  shows "for_loop ks body (U a) = map_sum id U (for_loop ks body a)"
  using assms
proof (induction ks arbitrary: a)
  case Nil
  then show ?case by simp
next
  case (Cons k ks)
  show ?case
  proof (cases "body k a")
    case (Inl e)
    then show ?thesis using Cons.prems [of k a] by simp
  next
    case (Inr b)
    then show ?thesis using Cons.prems [of k a] Cons.IH [of b] Cons.prems by simp
  qed
qed

section \<open>The order of the values that Convert writes\<close>










section \<open>The colour table\<close>

lemma map_of_SetAnnotation_new:
  assumes "v \<notin> fst ` set anns"
  shows "map_of (SetAnnotation v txt anns) x = (if x = v then Some txt else map_of anns x)"
proof -
  have "map_of anns v = None" using assms by (simp add: map_of_eq_None_iff)
  then show ?thesis using assms by (auto simp: SetAnnotation_def map_add_def split: option.splits)
qed

lemma keys_SetAnnotation_new:
  "v \<notin> fst ` set anns \<Longrightarrow> fst ` set (SetAnnotation v txt anns) = insert v (fst ` set anns)"
  by (auto simp: SetAnnotation_def)

lemma table_built_step:
  assumes inv: "table_built entries categoryNames k ct"
    and run: "ReadColorTable_entry entries categoryNames (int k) ct = Inr ct'"
    and k: "k < length entries"
  shows "table_built entries categoryNames (Suc k) ct'"
proof -
  have len: "length (TableValues ct) = length entries"
    and keys: "fst ` set (Annotations ct) \<subseteq> {0..<int k}"
    and old: "\<forall>i<k. TableValues ct ! i = spec_entry_color (entries ! i)
               \<and> map_of (Annotations ct) (int i) = entry_annotation categoryNames i"
    using inv by (simp_all add: table_built_def)
  have fresh: "int k \<notin> fst ` set (Annotations ct)" using keys by auto
  then have none: "map_of (Annotations ct) (int k) = None" by (simp add: map_of_eq_None_iff)
  let ?tbl = "(TableValues ct)[k := spec_entry_color (entries ! k)]"
  from run k len obtain anns' where
    ct': "ct' = ct\<lparr> TableValues := ?tbl, Annotations := anns' \<rparr>"
    and anns': "(anns' = Annotations ct \<and> entry_annotation categoryNames k = None)
                \<or> (\<exists>txt. anns' = SetAnnotation (int k) txt (Annotations ct)
                          \<and> entry_annotation categoryNames k = Some txt)"
    by (auto simp: ReadColorTable_entry_def bindE_Inr_iff vec_at_def vec_set_def Let_def
          spec_entry_color_def entry_annotation_def split: option.splits if_splits)
  have "fst ` set anns' \<subseteq> insert (int k) (fst ` set (Annotations ct))"
    using anns' keys_SetAnnotation_new [OF fresh] by blast
  also have "\<dots> \<subseteq> {0..<int (Suc k)}"
    using keys by auto
  finally have keys': "fst ` set anns' \<subseteq> {0..<int (Suc k)}" .
  have look: "map_of anns' (int i) = (if i = k then entry_annotation categoryNames k
                                       else map_of (Annotations ct) (int i))" for i
    using anns' none map_of_SetAnnotation_new [OF fresh] by auto
  have "\<forall>i<Suc k. TableValues ct' ! i = spec_entry_color (entries ! i)
               \<and> map_of (Annotations ct') (int i) = entry_annotation categoryNames i"
  proof (intro allI impI)
    fix i assume "i < Suc k"
    then consider "i < k" | "i = k" by linarith
    then show "TableValues ct' ! i = spec_entry_color (entries ! i)
               \<and> map_of (Annotations ct') (int i) = entry_annotation categoryNames i"
    proof cases
      case 1
      then show ?thesis using old by (simp add: ct' look)
    next
      case 2
      then show ?thesis using k len by (simp add: ct' look)
    qed
  qed
  then show ?thesis using keys' len by (simp add: table_built_def ct')
qed

text \<open>
  C8, as amended. For an RGB palette and every entry index \<open>i\<close>, when \<open>ReadColorTable\<close>
  returns, the table value of \<open>i\<close> is the four channels divided by 255, and the
  annotation of \<open>i\<close> is: the band's category name for \<open>i\<close> when the band has category
  names and that name is non-empty; none when the band has category names and the name
  for \<open>i\<close> is empty; \<open>Category i\<close> when the band has no category names.
\<close>

theorem ReadColorTable_entries:
  assumes tbl: "ColorTable band = Some tbl" and rgb: "PaletteInterpretation tbl = GPI_RGB"
    and run: "ReadColorTable band new_vtkLookupTable = Inr ct"
    and i: "i < length (ColorEntries tbl)"
  shows "TableValues ct ! i =
           (real_of_int (c1 (ColorEntries tbl ! i)) / 255,
            real_of_int (c2 (ColorEntries tbl ! i)) / 255,
            real_of_int (c3 (ColorEntries tbl ! i)) / 255,
            real_of_int (c4 (ColorEntries tbl ! i)) / 255)
         \<and> map_of (Annotations ct) (int i) =
             (case CategoryNames band of
                None \<Rightarrow> Some (''Category '' @ to_string (int i))
              | Some names \<Rightarrow> (if names ! i \<noteq> [] then Some (names ! i) else None))"
proof -
  let ?entries = "ColorEntries tbl"
  let ?start = "new_vtkLookupTable\<lparr> IndexedLookup := True,
                  TableValues := take (length ?entries) (TableValues new_vtkLookupTable)
                    @ replicate (length ?entries - length (TableValues new_vtkLookupTable))
                        (0, 0, 0, 0) \<rparr>"
  from run tbl rgb have loop:
    "for_loop [0..<length ?entries]
       (\<lambda>i. ReadColorTable_entry ?entries (CategoryNames band) (int i)) ?start = Inr ct"
    by (simp add: ReadColorTable_def vec_resize_def Let_def)
  have "table_built ?entries (CategoryNames band) 0 ?start"
    by (simp add: table_built_def new_vtkLookupTable_def)
  then have "table_built ?entries (CategoryNames band) (length ?entries) ct"
    by (rule for_loop_upt_rule [OF loop,
          where Q = "table_built ?entries (CategoryNames band)"])
       (use table_built_step in \<open>auto\<close>)
  then show ?thesis
    using i by (simp add: table_built_def spec_entry_color_def entry_annotation_def)
qed

theorem ReadColorTable_entries_witness:
  "ColorTable pal_band = Some pal_table
   \<and> PaletteInterpretation pal_table = GPI_RGB
   \<and> (1::nat) < length (ColorEntries pal_table)
   \<and> (\<exists>ct. ReadColorTable pal_band new_vtkLookupTable = Inr ct
          \<and> TableValues ct ! 1 = (0, 0, 1, 1)
          \<and> map_of (Annotations ct) 1 = Some ''water'')"
proof -
  have tbl: "ColorTable pal_band = Some pal_table"
    by (simp add: pal_band_def)
  have rgb: "PaletteInterpretation pal_table = GPI_RGB"
    by (simp add: pal_table_def)
  have i: "(1::nat) < length (ColorEntries pal_table)"
    by (simp add: pal_table_def)
  have names: "CategoryNames pal_band = Some [[], ''water'']"
    by (simp add: pal_band_def)
  have "case ReadColorTable pal_band new_vtkLookupTable of Inl _ \<Rightarrow> False | Inr _ \<Rightarrow> True"
    by code_simp
  then obtain ct where run: "ReadColorTable pal_band new_vtkLookupTable = Inr ct"
    by (cases "ReadColorTable pal_band new_vtkLookupTable") simp_all
  from ReadColorTable_entries [OF tbl rgb run i]
  have "TableValues ct ! 1 = (0, 0, 1, 1) \<and> map_of (Annotations ct) 1 = Some ''water''"
    by (simp add: pal_table_def names)
  then show ?thesis using tbl rgb i run by blast
qed

text \<open>
  C8 as the spec states it (the annotation is the category name when that is non-empty,
  "else" the synthesized string) fails for an empty name in a band that has category
  names: entry 0 of the palette band gets no annotation at all.
\<close>

theorem empty_category_name_not_annotated:
  "CategoryNames pal_band = Some [[], ''water'']
   \<and> (case ReadColorTable pal_band new_vtkLookupTable of
         Inr ct \<Rightarrow> Annotations ct = [(1, ''water'')] \<and> map_of (Annotations ct) 0 = None
       | Inl _ \<Rightarrow> False)"
proof -
  have "CategoryNames pal_band = Some [[], ''water'']"
    by (simp add: pal_band_def)
  moreover have "case ReadColorTable pal_band new_vtkLookupTable of
         Inr ct \<Rightarrow> Annotations ct = [(1, ''water'')] \<and> map_of (Annotations ct) 0 = None
       | Inl _ \<Rightarrow> False"
    by code_simp
  ultimately show ?thesis by simp
qed

section \<open>A second Produce\<close>

lemma classify_band_Inr:
  assumes "classify_band i (s, r) = Inr (s', r')"
  shows "\<exists>ds band. GDALData s = Some ds \<and> GetRasterBand ds i = Some band
           \<and> 0 \<le> i - 1 \<and> i - 1 < int (length (HasNoDataValue s))
           \<and> i - 1 < int (length (NoDataValue s))
           \<and> s' = s\<lparr> HasNoDataValue := (HasNoDataValue s)[nat (i - 1) := NoDataFlag band],
                     NoDataValue := (NoDataValue s)[nat (i - 1) := NoDataVal band] \<rparr>
           \<and> r' = assign_role i band r"
  using assms
  by (auto simp: classify_band_def bindE_Inr_iff vec_set_def split: option.splits if_splits)

lemma classify_band_settles:
  assumes "classify_band i (s, r) = Inr (s', r')"
  shows "settled_at i s'" and "settled_at k s \<Longrightarrow> settled_at k s'" and "same_bands s s'"
    and "s' = s\<lparr> HasNoDataValue := HasNoDataValue s', NoDataValue := NoDataValue s' \<rparr>"
proof -
  from classify_band_Inr [OF assms] obtain ds band where
    ds: "GDALData s = Some ds" and band: "GetRasterBand ds i = Some band"
    and rng: "0 \<le> i - 1" "i - 1 < int (length (HasNoDataValue s))"
             "i - 1 < int (length (NoDataValue s))"
    and s': "s' = s\<lparr> HasNoDataValue := (HasNoDataValue s)[nat (i - 1) := NoDataFlag band],
                     NoDataValue := (NoDataValue s)[nat (i - 1) := NoDataVal band] \<rparr>"
    by blast
  show "settled_at i s'" using ds band rng by (simp add: settled_at_def s')
  show "same_bands s s'" by (simp add: same_bands_def s')
  show "s' = s\<lparr> HasNoDataValue := HasNoDataValue s', NoDataValue := NoDataValue s' \<rparr>"
    by (simp add: s')
  show "settled_at k s'" if "settled_at k s"
  proof -
    from that ds obtain bk where bk: "GetRasterBand ds k = Some bk"
      and hk: "HasNoDataValue s ! nat (k - 1) = NoDataFlag bk"
      and nk: "NoDataValue s ! nat (k - 1) = NoDataVal bk"
      by (auto simp: settled_at_def)
    have k1: "1 \<le> k" using bk by (simp add: GetRasterBand_def split: if_splits)
    show ?thesis
    proof (cases "k = i")
      case True
      then show ?thesis using \<open>settled_at i s'\<close> by simp
    next
      case False
      then have "nat (k - 1) \<noteq> nat (i - 1)" using k1 rng by linarith
      then show ?thesis using ds bk hk nk by (simp add: settled_at_def s')
    qed
  qed
qed

lemma classify_loop_settles:
  assumes "for_loop ks classify_band (s, r) = Inr (s1, r1)"
  shows "(\<forall>k\<in>set ks. settled_at k s1) \<and> same_bands s s1
         \<and> s1 = s\<lparr> HasNoDataValue := HasNoDataValue s1, NoDataValue := NoDataValue s1 \<rparr>"
  using assms
proof (induction ks arbitrary: s r)
  case Nil
  then show ?case by (simp add: same_bands_def)
next
  case (Cons k ks)
  from Cons.prems obtain s' r' where step: "classify_band k (s, r) = Inr (s', r')"
    and rest: "for_loop ks classify_band (s', r') = Inr (s1, r1)"
    by (auto simp: bindE_Inr_iff)
  note st = classify_band_settles [OF step]
  from Cons.IH [OF rest] have ih: "\<forall>k\<in>set ks. settled_at k s1" "same_bands s' s1"
    "s1 = s'\<lparr> HasNoDataValue := HasNoDataValue s1, NoDataValue := NoDataValue s1 \<rparr>"
    by simp_all
  have "settled_at k (fst (s1, r1))"
    by (rule for_loop_invariant [OF rest, where P = "\<lambda>sr. settled_at k (fst sr)"])
       (use st(1) classify_band_settles(2) in \<open>auto\<close>)
  then have keep: "settled_at k s1" by simp
  have "s1 = s\<lparr> HasNoDataValue := HasNoDataValue s1, NoDataValue := NoDataValue s1 \<rparr>"
    by (subst ih(3), subst st(4)) simp
  then show ?case using keep ih st(3) by (auto simp: same_bands_def)
qed

lemma classify_band_settled:
  assumes run: "classify_band i (s, r) = Inr (s', r')"
    and t: "same_bands s t" "settled_at i t"
  shows "classify_band i (t, r) = Inr (t, r')"
proof -
  from classify_band_Inr [OF run] obtain ds band where
    ds: "GDALData s = Some ds" and band: "GetRasterBand ds i = Some band"
    and rng: "0 \<le> i - 1" "i - 1 < int (length (HasNoDataValue s))"
             "i - 1 < int (length (NoDataValue s))"
    and r': "r' = assign_role i band r"
    by blast
  have vals: "HasNoDataValue t ! nat (i - 1) = NoDataFlag band"
    "NoDataValue t ! nat (i - 1) = NoDataVal band"
    using t ds band by (auto simp: settled_at_def same_bands_def)
  have "(HasNoDataValue t)[nat (i - 1) := NoDataFlag band] = HasNoDataValue t"
    "(NoDataValue t)[nat (i - 1) := NoDataVal band] = NoDataValue t"
    using vals by (simp_all flip: vals)
  then show ?thesis
    using t(1) ds band rng
    by (simp add: classify_band_def same_bands_def vec_set_def r')
qed

lemma classify_loop_settled:
  assumes "for_loop ks classify_band (s, r) = Inr (s1, r1)"
    and "same_bands s t" and "\<forall>k\<in>set ks. settled_at k t"
  shows "for_loop ks classify_band (t, r) = Inr (t, r1)"
  using assms
proof (induction ks arbitrary: s r)
  case Nil
  then show ?case by simp
next
  case (Cons k ks)
  from Cons.prems(1) obtain s' r' where step: "classify_band k (s, r) = Inr (s', r')"
    and rest: "for_loop ks classify_band (s', r') = Inr (s1, r1)"
    by (auto simp: bindE_Inr_iff)
  have "same_bands s' t"
    using classify_band_settles(3) [OF step] Cons.prems(2) by (simp add: same_bands_def)
  then have "for_loop ks classify_band (t, r') = Inr (t, r1)"
    using Cons.IH [OF rest] Cons.prems(3) by simp
  moreover have "classify_band k (t, r) = Inr (t, r')"
    using classify_band_settled [OF step Cons.prems(2)] Cons.prems(3) by simp
  ultimately show ?case by simp
qed

lemma read_slot_same_window:
  "same_window s t \<Longrightarrow> read_slot e t ps ls = read_slot e s ps ls"
  by (rule ext)+ (simp add: read_slot_def RasterIO_args_def same_window_def
      split: prod.splits option.splits)

lemma GetGeoCornerPoint_stores:
  "GetGeoCornerPoint s (Some ds) x y = Inr r \<Longrightarrow> snd r \<noteq> None"
  by (auto simp: GetGeoCornerPoint_def bindE_Inr_iff Let_def
      split: option.splits if_splits prod.splits)

lemma GetGeoCornerPoint_same_data:
  "GDALData t = GDALData s \<Longrightarrow> GetGeoCornerPoint t d x y = GetGeoCornerPoint s d x y"
  by (simp add: GetGeoCornerPoint_def split: option.splits)

lemma GetGeoCornerPoints_frame:
  "GetGeoCornerPoints s = Inr s3 \<Longrightarrow> s3 = s\<lparr> CornerPoints := CornerPoints s3 \<rparr>"
  by (auto simp: GetGeoCornerPoints_def bindE_Inr_iff Let_def split: prod.splits)

lemma GetGeoCornerPoints_again:
  assumes run: "GetGeoCornerPoints s = Inr s3"
    and ds: "GDALData s = Some ds"
    and t: "GDALData t = GDALData s" "RasterDimensions t = RasterDimensions s"
           "CornerPoints t = CornerPoints s3"
  shows "GetGeoCornerPoints t = Inr t"
proof -
  obtain p0 p2 p4 p6 where cp: "CornerPoints s = (p0, p2, p4, p6)"
    by (cases "CornerPoints s") auto
  obtain q0 q2 q4 q6 where cq: "CornerPoints t = (q0, q2, q4, q6)"
    by (cases "CornerPoints t") auto
  let ?W = "real_of_int (fst (RasterDimensions s))"
  let ?H = "real_of_int (snd (RasterDimensions s))"
  from run cp obtain r0 r2 r4 r6 where
    r: "GetGeoCornerPoint s (Some ds) 0 0 = Inr r0"
       "GetGeoCornerPoint s (Some ds) 0 ?H = Inr r2"
       "GetGeoCornerPoint s (Some ds) ?W ?H = Inr r4"
       "GetGeoCornerPoint s (Some ds) ?W 0 = Inr r6"
    and s3: "s3 = s\<lparr> CornerPoints := (store_corner (snd r0) p0, store_corner (snd r2) p2,
                                        store_corner (snd r4) p4, store_corner (snd r6) p6) \<rparr>"
    by (auto simp: GetGeoCornerPoints_def bindE_Inr_iff Let_def ds)
  from r obtain a0 a2 a4 a6 where
    some: "snd r0 = Some a0" "snd r2 = Some a2" "snd r4 = Some a4" "snd r6 = Some a6"
    by (auto dest!: GetGeoCornerPoint_stores)
  have "GetGeoCornerPoints t =
          Inr (t\<lparr> CornerPoints := (store_corner (snd r0) q0, store_corner (snd r2) q2,
                                   store_corner (snd r4) q4, store_corner (snd r6) q6) \<rparr>)"
    using r t(1,2) ds
    by (simp add: GetGeoCornerPoints_def Let_def cq GetGeoCornerPoint_same_data [OF t(1)])
  also have "\<dots> = Inr (t\<lparr> CornerPoints := CornerPoints s3 \<rparr>)"
    by (simp add: s3 some store_corner_def)
  also have "\<dots> = Inr t" using t(3) by simp
  finally show ?thesis .
qed

lemma read_primary_group_simulation:
  assumes w: "same_window s t"
  shows "read_primary_group e t r =
           map_sum id (\<lambda>g. (set_components (primary_components r) t, snd g))
             (read_primary_group e s r)"
proof -
  have dims: "TargetDimensions t = TargetDimensions s"
    "NumberOfBytesPerPixel t = NumberOfBytesPerPixel s"
    using w by (simp_all add: same_window_def)
  show ?thesis
    unfolding read_primary_group_def Let_def read_slot_same_window [OF w] dims
    by (cases "alphaBand r"; cases "paletteBand r")
       (simp_all add: map_sum_bindE primary_components_def set_components_def
          split: option.splits)
qed

lemma read_primary_group_frame:
  assumes "read_primary_group e s r = Inr (s2, r', gi, raw, ct)"
  shows "s2 = set_components (primary_components r) s"
  using read_primary_group_simulation [of s s e r] assms by (simp add: same_window_def)

lemma read_primary_group_again:
  assumes run: "read_primary_group e s r = Inr (s2, r', gi, raw, ct)"
    and w: "same_window s t"
    and n: "NumberOfScalarComponents t = NumberOfScalarComponents s2"
  shows "read_primary_group e t r = Inr (t, r', gi, raw, ct)"
proof -
  have "set_components (primary_components r) t = t"
    using n read_primary_group_frame [OF run]
    by (cases "primary_components r") (simp_all add: set_components_def)
  then show ?thesis
    using read_primary_group_simulation [OF w, of e r] run by simp
qed

lemma only_grid_refl: "only_grid s s"
  by (simp add: only_grid_def)

lemma only_grid_trans: "only_grid s s' \<Longrightarrow> only_grid s' s'' \<Longrightarrow> only_grid s s''"
  unfolding only_grid_def
proof -
  assume a: "s' = s\<lparr> UniformGridData := UniformGridData s', NumberOfCells := NumberOfCells s' \<rparr>"
    and b: "s'' = s'\<lparr> UniformGridData := UniformGridData s'', NumberOfCells := NumberOfCells s'' \<rparr>"
  show "s'' = s\<lparr> UniformGridData := UniformGridData s'', NumberOfCells := NumberOfCells s'' \<rparr>"
    by (subst b, subst a) simp
qed

lemma only_grid_update:
  "only_grid s s' \<Longrightarrow> only_grid s (s'\<lparr> UniformGridData := g \<rparr>)"
  unfolding only_grid_def
proof -
  assume a: "s' = s\<lparr> UniformGridData := UniformGridData s', NumberOfCells := NumberOfCells s' \<rparr>"
  show "s'\<lparr> UniformGridData := g \<rparr> =
        s\<lparr> UniformGridData := UniformGridData (s'\<lparr> UniformGridData := g \<rparr>),
           NumberOfCells := NumberOfCells (s'\<lparr> UniformGridData := g \<rparr>) \<rparr>"
    by (subst a) simp
qed

lemma only_gridI: "s' = s\<lparr> UniformGridData := g, NumberOfCells := c \<rparr> \<Longrightarrow> only_grid s s'"
  by (simp add: only_grid_def)

lemma Convert_sample_state:
  assumes "Convert_sample cast raw W H g fx fy j i bi (s, vals) = Inr (s', vals')"
  shows "s' = s\<lparr> UniformGridData :=
                  map_option (BlankCell (i * length g + nat (int j * W) * length g + bi))
                    (UniformGridData s) \<rparr>
         \<or> s' = s\<lparr> NumberOfCells := NumberOfCells s + 1 \<rparr>"
  using assms
  by (auto simp: Convert_sample_def bindE_Inr_iff Let_def split: if_splits)

lemma Convert_sample_frame:
  assumes "Convert_sample cast raw W H g fx fy j i bi (s, vals) = Inr (s', vals')"
  shows "only_grid s s'"
proof -
  from Convert_sample_state [OF assms] show ?thesis
  proof
    assume "s' = s\<lparr> UniformGridData :=
                  map_option (BlankCell (i * length g + nat (int j * W) * length g + bi))
                    (UniformGridData s) \<rparr>"
    then have "s' = s\<lparr> UniformGridData :=
                  map_option (BlankCell (i * length g + nat (int j * W) * length g + bi))
                    (UniformGridData s), NumberOfCells := NumberOfCells s \<rparr>"
      by simp
    then show ?thesis by (rule only_gridI)
  next
    assume "s' = s\<lparr> NumberOfCells := NumberOfCells s + 1 \<rparr>"
    then have "s' = s\<lparr> UniformGridData := UniformGridData s,
                       NumberOfCells := NumberOfCells s + 1 \<rparr>"
      by simp
    then show ?thesis by (rule only_gridI)
  qed
qed

lemma Convert_slots_frame:
  assumes "for_loop ks (Convert_sample cast raw W H g fx fy j i) sv = Inr sv'"
    and "only_grid s (fst sv)"
  shows "only_grid s (fst sv')"
proof (rule for_loop_invariant [OF assms(1), where P = "\<lambda>sv. only_grid s (fst sv)"])
  show "only_grid s (fst sv)" by (rule assms(2))
next
  fix k b b'
  assume b: "only_grid s (fst b)"
    and run: "Convert_sample cast raw W H g fx fy j i k b = Inr b'"
  have "Convert_sample cast raw W H g fx fy j i k (fst b, snd b) = Inr (fst b', snd b')"
    using run by simp
  from only_grid_trans [OF b Convert_sample_frame [OF this]]
  show "only_grid s (fst b')" .
qed

lemma Convert_row_frame:
  assumes "for_loop ks (\<lambda>i. for_loop ns (Convert_sample cast raw W H g fx fy j i)) sv = Inr sv'"
    and "only_grid s (fst sv)"
  shows "only_grid s (fst sv')"
proof (rule for_loop_invariant [OF assms(1), where P = "\<lambda>sv. only_grid s (fst sv)"])
  show "only_grid s (fst sv)" by (rule assms(2))
next
  fix k b b'
  assume "only_grid s (fst b)"
    and "for_loop ns (Convert_sample cast raw W H g fx fy j k) b = Inr b'"
  then show "only_grid s (fst b')" by (rule Convert_slots_frame [rotated])
qed

lemma Convert_rows_frame:
  assumes "for_loop js (\<lambda>j. for_loop ks (\<lambda>i. for_loop ns
             (Convert_sample cast raw W H g fx fy j i))) sv = Inr sv'"
    and "only_grid s (fst sv)"
  shows "only_grid s (fst sv')"
proof (rule for_loop_invariant [OF assms(1), where P = "\<lambda>sv. only_grid s (fst sv)"])
  show "only_grid s (fst sv)" by (rule assms(2))
next
  fix j b b'
  assume "only_grid s (fst b)"
    and "for_loop ks (\<lambda>i. for_loop ns (Convert_sample cast raw W H g fx fy j i)) b = Inr b'"
  then show "only_grid s (fst b')" by (rule Convert_row_frame [rotated])
qed

lemma Convert_frame:
  assumes "Convert cast s raw W H g name fx fy = Inr s'"
  shows "only_grid s s'"
proof (cases "UniformGridData s")
  case None
  then show ?thesis using assms by (simp add: Convert_def only_grid_def)
next
  case (Some grid)
  from assms Some obtain sv where
    loops: "for_loop [0..<nat H] (\<lambda>j. for_loop [0..<nat W] (\<lambda>i. for_loop [0..<length g]
              (Convert_sample cast raw W H g fx fy j i)))
              (s, replicate (nat (W * H) * length g) None) = Inr sv"
    and s': "s' = (fst sv)\<lparr> UniformGridData :=
               map_option (\<lambda>gr. gr\<lparr> CellArrays :=
                   AddArray \<lparr> Name = name, NumberOfComponents = length g, Values = snd sv,
                              LookupTable = None \<rparr> (CellArrays gr) \<rparr>)
                 (UniformGridData (fst sv)) \<rparr>"
    by (auto simp: Convert_def bindE_Inr_iff split: prod.splits)
  have "only_grid s (fst sv)"
    by (rule Convert_rows_frame [OF loops]) (simp add: only_grid_refl)
  then show ?thesis unfolding s' by (rule only_grid_update)
qed

lemma other_band_frame:
  assumes "other_band e r fx fy i (s, gi, raw) = Inr (s', gi', raw')"
  shows "only_grid s s'"
proof -
  from assms have "s' = s \<or> (\<exists>c raw2 W H g nm. Convert c s raw2 W H g nm fx fy = Inr s')"
    by (auto simp: other_band_def bindE_Inr_iff Let_def split: option.splits)
  then show ?thesis using only_grid_refl Convert_frame by blast
qed

lemma other_bands_frame:
  assumes "for_loop ks (other_band e r fx fy) sgb = Inr sgb'"
    and "only_grid s (fst sgb)"
  shows "only_grid s (fst sgb')"
proof (rule for_loop_invariant [OF assms(1), where P = "\<lambda>sgb. only_grid s (fst sgb)"])
  show "only_grid s (fst sgb)" by (rule assms(2))
next
  fix k b b'
  assume b: "only_grid s (fst b)" and run: "other_band e r fx fy k b = Inr b'"
  have "other_band e r fx fy k (fst b, fst (snd b), snd (snd b))
          = Inr (fst b', fst (snd b'), snd (snd b'))"
    using run by simp
  from only_grid_trans [OF b other_band_frame [OF this]]
  show "only_grid s (fst b')" .
qed

lemma convert_bands_unfold:
  assumes "UniformGridData s3 = Some grid"
  shows "convert_bands e r gi raw ct s3 =
     bindE (Convert (static_cast_raw e)
              (s3\<lparr> UniformGridData := Some (set_grid_geometry s3 grid) \<rparr>) raw
              (fst (TargetDimensions s3)) (snd (TargetDimensions s3)) gi ''Elevation''
              (fst (geoSpacing s3) < 0) (fst (snd (geoSpacing s3)) < 0)) (\<lambda>s5.
     bindE (vec_resize gi 1 0) (\<lambda>gi1.
     bindE (vec_resize raw (fst (TargetDimensions s3) * snd (TargetDimensions s3)
                             * NumberOfBytesPerPixel s3) 0) (\<lambda>raw1.
     bindE (for_loop [0..<length (otherBands r)]
              (other_band e r (fst (geoSpacing s3) < 0) (fst (snd (geoSpacing s3)) < 0))
              (s5\<lparr> UniformGridData :=
                    map_option (SetActiveScalars ''Elevation'') (UniformGridData s5) \<rparr>,
               gi1, raw1))
       (finish_grid r ct))))"
  using assms by (simp add: convert_bands_def Let_def)

lemma finish_grid_frame:
  assumes "finish_grid r ct sgb = Inr s'"
  shows "only_grid (fst sgb) s'"
proof -
  obtain s7 gi7 raw7 where sgb: "sgb = (s7, gi7, raw7)" by (cases sgb)
  from assms have "s' = s7 \<or> (\<exists>g8. s' = s7\<lparr> UniformGridData := Some g8 \<rparr>)"
    by (auto simp: finish_grid_def sgb bindE_Inr_iff split: if_splits option.splits)
  then show ?thesis
    using only_grid_refl [of s7] only_grid_update [OF only_grid_refl, of s7] by (auto simp: sgb)
qed

lemma convert_bands_frame:
  assumes "convert_bands e r gi raw ct s3 = Inr s'"
  shows "only_grid s3 s'"
proof -
  from assms obtain grid where grid: "UniformGridData s3 = Some grid"
    by (auto simp: convert_bands_def split: option.splits)
  let ?fx = "fst (geoSpacing s3) < 0"
  let ?fy = "fst (snd (geoSpacing s3)) < 0"
  let ?s4 = "s3\<lparr> UniformGridData := Some (set_grid_geometry s3 grid) \<rparr>"
  from assms [unfolded convert_bands_unfold [OF grid] bindE_Inr_iff]
  obtain s5 gi1 raw1 sgb where
    conv: "Convert (static_cast_raw e) ?s4 raw (fst (TargetDimensions s3))
             (snd (TargetDimensions s3)) gi ''Elevation'' ?fx ?fy = Inr s5"
    and loop: "for_loop [0..<length (otherBands r)] (other_band e r ?fx ?fy)
                 (s5\<lparr> UniformGridData :=
                       map_option (SetActiveScalars ''Elevation'') (UniformGridData s5) \<rparr>,
                  gi1, raw1) = Inr sgb"
    and fin: "finish_grid r ct sgb = Inr s'"
    by blast
  have "only_grid s3 ?s4" by (rule only_grid_update [OF only_grid_refl])
  from only_grid_trans [OF this Convert_frame [OF conv]] have "only_grid s3 s5" .
  then have "only_grid s3 (fst (s5\<lparr> UniformGridData :=
                       map_option (SetActiveScalars ''Elevation'') (UniformGridData s5) \<rparr>,
                  gi1, raw1))"
    by (simp add: only_grid_update)
  from other_bands_frame [OF loop this] have "only_grid s3 (fst sgb)" .
  from only_grid_trans [OF this finish_grid_frame [OF fin]] show ?thesis .
qed

lemma map_sum_if:
  "map_sum f g (if c then a else b) = (if c then map_sum f g a else map_sum f g b)"
  by simp

lemma with_Projection_fields [simp]:
  "HasNoDataValue (with_Projection p s) = HasNoDataValue s"
  "NoDataValue (with_Projection p s) = NoDataValue s"
  "UniformGridData (with_Projection p s) = UniformGridData s"
  "NumberOfCells (with_Projection p s) = NumberOfCells s"
  "TargetDimensions (with_Projection p s) = TargetDimensions s"
  "NumberOfBytesPerPixel (with_Projection p s) = NumberOfBytesPerPixel s"
  "TargetDataType (with_Projection p s) = TargetDataType s"
  "SourceOffset (with_Projection p s) = SourceOffset s"
  "SourceDimensions (with_Projection p s) = SourceDimensions s"
  "CornerPoints (with_Projection p s) = CornerPoints s"
  "RasterDimensions (with_Projection p s) = RasterDimensions s"
  "GDALData (with_Projection p s) = GDALData s"
  by (simp_all add: with_Projection_def)

lemma with_Projection_updates:
  "(with_Projection p s)\<lparr> UniformGridData := g \<rparr> = with_Projection p (s\<lparr> UniformGridData := g \<rparr>)"
  "(with_Projection p s)\<lparr> NumberOfCells := c \<rparr> = with_Projection p (s\<lparr> NumberOfCells := c \<rparr>)"
  by (simp_all add: with_Projection_def)

lemma Convert_sample_Projection:
  "Convert_sample cast raw W H g fx fy j i bi (with_Projection p s, vals) =
     map_sum id (apfst (with_Projection p)) (Convert_sample cast raw W H g fx fy j i bi (s, vals))"
  by (simp add: Convert_sample_def Let_def map_sum_bindE with_Projection_updates
        if_distrib [of "with_Projection p"] cong: if_cong)

lemma Convert_slots_Projection:
  "for_loop ks (Convert_sample cast raw W H g fx fy j i) (with_Projection p s, vals) =
     map_sum id (apfst (with_Projection p))
       (for_loop ks (Convert_sample cast raw W H g fx fy j i) (s, vals))"
  using for_loop_commute [of ks "Convert_sample cast raw W H g fx fy j i"
          "apfst (with_Projection p)" "(s, vals)"]
  by (simp add: Convert_sample_Projection split_paired_all)

lemma Convert_row_Projection:
  "for_loop ks (\<lambda>i. for_loop ns (Convert_sample cast raw W H g fx fy j i))
       (with_Projection p s, vals) =
     map_sum id (apfst (with_Projection p))
       (for_loop ks (\<lambda>i. for_loop ns (Convert_sample cast raw W H g fx fy j i)) (s, vals))"
  using for_loop_commute [of ks "\<lambda>i. for_loop ns (Convert_sample cast raw W H g fx fy j i)"
          "apfst (with_Projection p)" "(s, vals)"]
  by (simp add: Convert_slots_Projection split_paired_all)

lemma Convert_rows_Projection:
  "for_loop js (\<lambda>j. for_loop ks (\<lambda>i. for_loop ns (Convert_sample cast raw W H g fx fy j i)))
       (with_Projection p s, vals) =
     map_sum id (apfst (with_Projection p))
       (for_loop js (\<lambda>j. for_loop ks (\<lambda>i. for_loop ns
          (Convert_sample cast raw W H g fx fy j i))) (s, vals))"
  using for_loop_commute [of js
          "\<lambda>j. for_loop ks (\<lambda>i. for_loop ns (Convert_sample cast raw W H g fx fy j i))"
          "apfst (with_Projection p)" "(s, vals)"]
  by (simp add: Convert_row_Projection split_paired_all)

lemma Convert_Projection:
  "Convert cast (with_Projection p s) raw W H g name fx fy =
     map_sum id (with_Projection p) (Convert cast s raw W H g name fx fy)"
proof (cases "UniformGridData s")
  case None
  then show ?thesis by (simp add: Convert_def)
next
  case (Some grid)
  show ?thesis
  proof (cases "vec_at raw 0")
    case (Inl err)
    then show ?thesis using Some by (simp add: Convert_def)
  next
    case (Inr x)
    show ?thesis
    proof (cases "for_loop [0..<nat H] (\<lambda>j. for_loop [0..<nat W] (\<lambda>i. for_loop [0..<length g]
              (Convert_sample cast raw W H g fx fy j i)))
              (s, replicate (nat (W * H) * length g) None)")
      case (Inl err)
      then show ?thesis using Some Inr by (simp add: Convert_def Convert_rows_Projection)
    next
      case loops: (Inr sv)
      obtain s1 vals where sv: "sv = (s1, vals)" by (cases sv)
      show ?thesis
        using Some Inr loops
        by (simp add: Convert_def Convert_rows_Projection sv with_Projection_updates)
    qed
  qed
qed

lemma other_band_Projection:
  "other_band e r fx fy i (with_Projection p s, gi, raw) =
     map_sum id (apfst (with_Projection p)) (other_band e r fx fy i (s, gi, raw))"
proof (cases "vec_at (otherBands r) (int i)")
  case (Inl err)
  then show ?thesis by (simp add: other_band_def)
next
  case (Inr ob)
  show ?thesis
  proof (cases ob)
    case None
    then show ?thesis using Inr by (simp add: other_band_def)
  next
    case (Some band)
    have args: "RasterIO_args (with_Projection p s) a b = RasterIO_args s a b" for a b
      by (simp add: RasterIO_args_def)
    show ?thesis
      using Inr Some
      by (simp add: other_band_def Let_def args map_sum_bindE Convert_Projection)
         (simp add: bindE_def split: sum.splits)
  qed
qed

lemma other_bands_Projection:
  "for_loop ks (other_band e r fx fy) (with_Projection p s, gi, raw) =
     map_sum id (apfst (with_Projection p)) (for_loop ks (other_band e r fx fy) (s, gi, raw))"
  using for_loop_commute [of ks "other_band e r fx fy" "apfst (with_Projection p)" "(s, gi, raw)"]
  by (simp add: other_band_Projection split_paired_all)

lemma finish_grid_Projection:
  "finish_grid r ct (apfst (with_Projection p) sgb) =
     map_sum id (with_Projection p) (finish_grid r ct sgb)"
proof -
  obtain s7 gi7 raw7 where sgb: "sgb = (s7, gi7, raw7)" by (cases sgb)
  show ?thesis
    by (cases "UniformGridData s7")
       (simp_all add: finish_grid_def sgb map_sum_bindE with_Projection_updates)
qed

lemma bindE_map_sum:
  "bindE (map_sum id U m) f = bindE m (\<lambda>x. f (U x))"
  by (cases m) simp_all

lemma geoSpacing_Projection [simp]: "geoSpacing (with_Projection p s) = geoSpacing s"
  by (simp add: geoSpacing_def)

lemma set_grid_geometry_Projection [simp]:
  "set_grid_geometry (with_Projection p s) = set_grid_geometry s"
  by (rule ext) (simp add: set_grid_geometry_def)

lemma convert_bands_Projection:
  "convert_bands e r gi raw ct (with_Projection p s) =
     map_sum id (with_Projection p) (convert_bands e r gi raw ct s)"
proof (cases "UniformGridData s")
  case None
  then show ?thesis by (simp add: convert_bands_def)
next
  case (Some grid)
  then have grid': "UniformGridData (with_Projection p s) = Some grid" by simp
  show ?thesis
    unfolding convert_bands_unfold [OF Some] convert_bands_unfold [OF grid']
    by (simp add: with_Projection_updates Convert_Projection bindE_map_sum map_sum_bindE
          other_bands_Projection finish_grid_Projection [symmetric])
qed

lemma same_inputs_refl: "same_inputs s s"
  by (simp add: same_inputs_def same_window_def)

lemma same_inputs_trans: "same_inputs s t \<Longrightarrow> same_inputs t u \<Longrightarrow> same_inputs s u"
  by (simp add: same_inputs_def same_window_def)

lemma classify_loop_inputs:
  assumes "for_loop ks classify_band (s, r) = Inr (s1, r1)"
  shows "same_inputs s s1" "UniformGridData s1 = UniformGridData s"
    "NumberOfCells s1 = NumberOfCells s"
proof -
  define A where "A = HasNoDataValue s1"
  define B where "B = NoDataValue s1"
  have eq: "s1 = s\<lparr> HasNoDataValue := A, NoDataValue := B \<rparr>"
    using classify_loop_settles [OF assms] by (simp add: A_def B_def)
  show "same_inputs s s1" "UniformGridData s1 = UniformGridData s"
    "NumberOfCells s1 = NumberOfCells s"
    by (simp_all add: eq same_inputs_def same_window_def)
qed

lemma read_primary_group_inputs:
  assumes "read_primary_group e s r = Inr (s2, r', gi, raw, ct)"
  shows "same_inputs s s2" "UniformGridData s2 = UniformGridData s"
    "NumberOfCells s2 = NumberOfCells s" "HasNoDataValue s2 = HasNoDataValue s"
    "NoDataValue s2 = NoDataValue s"
  using read_primary_group_frame [OF assms]
  by (cases "primary_components r";
      simp add: set_components_def same_inputs_def same_window_def)+

lemma GetGeoCornerPoints_inputs:
  assumes "GetGeoCornerPoints s = Inr s3"
  shows "same_inputs s s3" "UniformGridData s3 = UniformGridData s"
    "NumberOfCells s3 = NumberOfCells s" "HasNoDataValue s3 = HasNoDataValue s"
    "NoDataValue s3 = NoDataValue s"
    "NumberOfScalarComponents s3 = NumberOfScalarComponents s"
proof -
  define C where "C = CornerPoints s3"
  have eq: "s3 = s\<lparr> CornerPoints := C \<rparr>"
    using GetGeoCornerPoints_frame [OF assms] by (simp add: C_def)
  show "same_inputs s s3" "UniformGridData s3 = UniformGridData s"
    "NumberOfCells s3 = NumberOfCells s" "HasNoDataValue s3 = HasNoDataValue s"
    "NoDataValue s3 = NoDataValue s"
    "NumberOfScalarComponents s3 = NumberOfScalarComponents s"
    by (simp_all add: eq same_inputs_def same_window_def)
qed

lemma only_grid_inputs:
  assumes "only_grid s s'"
  shows "same_inputs s s'" "HasNoDataValue s' = HasNoDataValue s"
    "NoDataValue s' = NoDataValue s" "CornerPoints s' = CornerPoints s"
    "NumberOfScalarComponents s' = NumberOfScalarComponents s"
    "s'\<lparr> UniformGridData := UniformGridData s, NumberOfCells := NumberOfCells s \<rparr> = s"
proof -
  define G where "G = UniformGridData s'"
  define c where "c = NumberOfCells s'"
  have eq: "s' = s\<lparr> UniformGridData := G, NumberOfCells := c \<rparr>"
    using assms by (simp add: only_grid_def G_def c_def)
  show "same_inputs s s'" "HasNoDataValue s' = HasNoDataValue s"
    "NoDataValue s' = NoDataValue s" "CornerPoints s' = CornerPoints s"
    "NumberOfScalarComponents s' = NumberOfScalarComponents s"
    "s'\<lparr> UniformGridData := UniformGridData s, NumberOfCells := NumberOfCells s \<rparr> = s"
    by (simp_all add: eq same_inputs_def same_window_def)
qed

lemma settled_at_cong:
  "GDALData t = GDALData s \<Longrightarrow> HasNoDataValue t = HasNoDataValue s \<Longrightarrow>
   NoDataValue t = NoDataValue s \<Longrightarrow> settled_at k t = settled_at k s"
  by (simp add: settled_at_def)

lemma GenericReadData_stages:
  assumes "GenericReadData e s = Inr s'"
  shows "\<exists>s1 r s2 r' gi raw ct s3.
           for_loop [1..NumberOfBands s] classify_band (s, no_roles) = Inr (s1, r)
           \<and> read_primary_group e s1 r = Inr (s2, r', gi, raw, ct)
           \<and> GetGeoCornerPoints s2 = Inr s3
           \<and> convert_bands e r' gi raw ct s3 = Inr s'"
  using assms by (auto simp: GenericReadData_def bindE_Inr_iff split: prod.splits)

lemma GenericReadData_again:
  assumes run: "GenericReadData e s = Inr s'" and ds: "GDALData s = Some ds"
  shows "GenericReadData e
           (with_Projection p
              (s'\<lparr> UniformGridData := UniformGridData s, NumberOfCells := NumberOfCells s \<rparr>))
         = Inr (with_Projection p s')"
proof -
  from GenericReadData_stages [OF run]
  obtain s1 r s2 r' gi raw ct s3 where
    c: "for_loop [1..NumberOfBands s] classify_band (s, no_roles) = Inr (s1, r)"
    and gg: "read_primary_group e s1 r = Inr (s2, r', gi, raw, ct)"
    and k: "GetGeoCornerPoints s2 = Inr s3"
    and t: "convert_bands e r' gi raw ct s3 = Inr s'"
    by blast
  note f1 = classify_loop_inputs [OF c]
  note f2 = read_primary_group_inputs [OF gg]
  note f3 = GetGeoCornerPoints_inputs [OF k]
  note f4 = only_grid_inputs [OF convert_bands_frame [OF t]]
  let ?t = "with_Projection p s3"
  have grid3: "UniformGridData s3 = UniformGridData s" "NumberOfCells s3 = NumberOfCells s"
    using f1 f2 f3 by simp_all
  have start: "s'\<lparr> UniformGridData := UniformGridData s, NumberOfCells := NumberOfCells s \<rparr> = s3"
    using f4(6) by (simp add: grid3)
  have in1: "same_inputs s s1" and in2: "same_inputs s1 s2" and in3: "same_inputs s2 s3"
    using f1 f2 f3 by simp_all
  have in13: "same_inputs s1 s3" using same_inputs_trans [OF in2 in3] .
  have in03: "same_inputs s s3" using same_inputs_trans [OF in1 in13] .
  have bands: "NumberOfBands ?t = NumberOfBands s"
    using in03 by (simp add: same_inputs_def with_Projection_def)
  have lists: "HasNoDataValue s3 = HasNoDataValue s1" "NoDataValue s3 = NoDataValue s1"
    using f2 f3 by simp_all
  have sb: "same_bands s ?t"
    using classify_loop_settles [OF c] in03 lists by (simp add: same_bands_def same_inputs_def)
  have st: "\<forall>k\<in>set [1..NumberOfBands s]. settled_at k ?t"
  proof
    fix k assume "k \<in> set [1..NumberOfBands s]"
    then have "settled_at k s1" using classify_loop_settles [OF c] by blast
    moreover have "settled_at k ?t = settled_at k s1"
      using in13 lists by (intro settled_at_cong) (simp_all add: same_inputs_def)
    ultimately show "settled_at k ?t" by simp
  qed
  have step1: "for_loop [1..NumberOfBands ?t] classify_band (?t, no_roles) = Inr (?t, r)"
    unfolding bands by (rule classify_loop_settled [OF c sb st])
  have sw: "same_window s1 ?t"
    using in13 by (simp add: same_inputs_def same_window_def)
  have nsc: "NumberOfScalarComponents ?t = NumberOfScalarComponents s2"
    using f3 by (simp add: with_Projection_def)
  have step2: "read_primary_group e ?t r = Inr (?t, r', gi, raw, ct)"
    by (rule read_primary_group_again [OF gg sw nsc])
  have ds2: "GDALData s2 = Some ds"
    using in1 in2 ds by (simp add: same_inputs_def)
  have step3: "GetGeoCornerPoints ?t = Inr ?t"
    by (rule GetGeoCornerPoints_again [OF k ds2])
       (use in3 in \<open>simp_all add: same_inputs_def\<close>)
  have step4: "convert_bands e r' gi raw ct ?t = Inr (with_Projection p s')"
    by (simp add: convert_bands_Projection t)
  show ?thesis
    unfolding start by (simp add: GenericReadData_def step1 step2 step3 step4)
qed

lemma GenericReadData_inputs:
  assumes "GenericReadData e s = Inr s'"
  shows "same_inputs s s'"
proof -
  from GenericReadData_stages [OF assms]
  obtain s1 r s2 r' gi raw ct s3 where
    c: "for_loop [1..NumberOfBands s] classify_band (s, no_roles) = Inr (s1, r)"
    and gg: "read_primary_group e s1 r = Inr (s2, r', gi, raw, ct)"
    and k: "GetGeoCornerPoints s2 = Inr s3"
    and t: "convert_bands e r' gi raw ct s3 = Inr s'"
    by blast
  from classify_loop_inputs(1) [OF c] read_primary_group_inputs(1) [OF gg]
    GetGeoCornerPoints_inputs(1) [OF k] only_grid_inputs(1) [OF convert_bands_frame [OF t]]
  show ?thesis by (blast intro: same_inputs_trans)
qed

lemma fix_pixel_type_again:
  assumes "fix_pixel_type ds s = Inr sA"
    and "NumberOfBytesPerPixel u = NumberOfBytesPerPixel sA"
    and "TargetDataType u = TargetDataType sA"
  shows "fix_pixel_type ds u = Inr u"
proof (cases "NumberOfBytesPerPixel sA = 0")
  case False
  then show ?thesis using assms(2) by (simp add: fix_pixel_type_def)
next
  case True
  with assms(1) obtain band where band: "GetRasterBand ds 1 = Some band"
    and sA: "TargetDataType sA = RasterDataType band"
            "NumberOfBytesPerPixel sA = bytes_per_pixel (RasterDataType band)"
    by (auto simp: fix_pixel_type_def Let_def split: if_splits option.splits)
  have "u\<lparr> TargetDataType := TargetDataType u,
           NumberOfBytesPerPixel := NumberOfBytesPerPixel u \<rparr> = u"
    by simp
  then show ?thesis
    using True band sA assms(2,3) by (simp add: fix_pixel_type_def)
qed

lemma fix_pixel_type_inputs:
  assumes "fix_pixel_type ds s = Inr sA"
  shows "GDALData sA = GDALData s" "FileName sA = FileName s"
  using assms by (auto simp: fix_pixel_type_def Let_def split: if_splits option.splits)

lemma ReadData_again:
  assumes run: "ReadData e f s = Inr s1" and ds: "GDALData s = Some ds"
  shows "ReadData e f (with_Projection p (s1\<lparr> UniformGridData := G, NumberOfCells := c \<rparr>))
         = Inr (with_Projection p s1)"
    and "GDALData s1 = Some ds" and "FileName s1 = FileName s"
proof -
  from run ds obtain sA where fixA: "fix_pixel_type ds s = Inr sA"
    and gen: "GenericReadData e
                (sA\<lparr> UniformGridData := Some new_vtkUniformGrid, NumberOfCells := 0,
                     DataScalarType := scalar_type_of (TargetDataType sA) \<rparr>) = Inr s1"
    by (auto simp: ReadData_def bindE_Inr_iff)
  let ?sB = "sA\<lparr> UniformGridData := Some new_vtkUniformGrid, NumberOfCells := 0,
                   DataScalarType := scalar_type_of (TargetDataType sA) \<rparr>"
  let ?u = "with_Projection p (s1\<lparr> UniformGridData := G, NumberOfCells := c \<rparr>)"
  note inp = GenericReadData_inputs [OF gen]
  have dsB: "GDALData ?sB = Some ds" using fix_pixel_type_inputs [OF fixA] ds by simp
  show ds1: "GDALData s1 = Some ds" using inp dsB by (simp add: same_inputs_def)
  show "FileName s1 = FileName s"
    using inp fix_pixel_type_inputs [OF fixA] by (simp add: same_inputs_def)
  have dsu: "GDALData ?u = Some ds" using ds1 by (simp add: with_Projection_def)
  have types: "NumberOfBytesPerPixel ?u = NumberOfBytesPerPixel sA"
    "TargetDataType ?u = TargetDataType sA"
    "DataScalarType s1 = scalar_type_of (TargetDataType sA)"
    "TargetDataType s1 = TargetDataType sA"
    using inp by (simp_all add: same_inputs_def same_window_def with_Projection_def)
  have fixu: "fix_pixel_type ds ?u = Inr ?u"
    by (rule fix_pixel_type_again [OF fixA types(1,2)])
  have reset: "?u\<lparr> UniformGridData := Some new_vtkUniformGrid, NumberOfCells := 0,
                    DataScalarType := scalar_type_of (TargetDataType ?u) \<rparr>
               = with_Projection p
                   (s1\<lparr> UniformGridData := UniformGridData ?sB,
                        NumberOfCells := NumberOfCells ?sB \<rparr>)"
    by (rule reader.equality) (simp_all add: types with_Projection_def)
  have "ReadData e f ?u =
          bindE (fix_pixel_type ds ?u) (\<lambda>s1.
            GenericReadData e
              (s1\<lparr> UniformGridData := Some new_vtkUniformGrid, NumberOfCells := 0,
                   DataScalarType := scalar_type_of (TargetDataType s1) \<rparr>))"
    by (simp add: ReadData_def ds1)
  also have "\<dots> = GenericReadData e
              (?u\<lparr> UniformGridData := Some new_vtkUniformGrid, NumberOfCells := 0,
                   DataScalarType := scalar_type_of (TargetDataType ?u) \<rparr>)"
    by (simp only: fixu bindE_simps)
  also have "\<dots> = GenericReadData e
              (with_Projection p
                 (s1\<lparr> UniformGridData := UniformGridData ?sB,
                      NumberOfCells := NumberOfCells ?sB \<rparr>))"
    by (simp only: reset)
  also have "\<dots> = Inr (with_Projection p s1)"
    by (rule GenericReadData_again [OF gen dsB])
  finally show "ReadData e f ?u = Inr (with_Projection p s1)" .
qed

lemma publish_grid_state:
  assumes "publish_grid e out s1 = Inr (rc, og, s3)" and "GDALData s1 = Some ds"
  shows "\<exists>G. s3 = with_Projection (exportToProj4 e (ProjectionRef ds))
                    (s1\<lparr> UniformGridData := G, NumberOfCells := NumberOfCells s1 \<rparr>)"
proof -
  let ?P = "exportToProj4 e (ProjectionRef ds)"
  from assms have "\<exists>g2. s3 = s1\<lparr> Projection := ?P, UniformGridData := Some g2 \<rparr>"
    by (cases out)
       (auto simp: publish_grid_def Let_def bindE_Inr_iff split: option.splits)
  then obtain g2 where s3: "s3 = s1\<lparr> Projection := ?P, UniformGridData := Some g2 \<rparr>"
    by blast
  have "s3 = with_Projection ?P
               (s1\<lparr> UniformGridData := Some g2, NumberOfCells := NumberOfCells s1 \<rparr>)"
    unfolding s3 with_Projection_def by (rule reader.equality) simp_all
  then show ?thesis by blast
qed

lemma publish_grid_Projection:
  assumes "GDALData s1 = Some ds"
  shows "publish_grid e out (with_Projection (exportToProj4 e (ProjectionRef ds)) s1)
         = publish_grid e out s1"
  using assms by (simp add: publish_grid_def with_Projection_def)

lemma ReadData_no_data:
  "GDALData s = None \<Longrightarrow> ReadData e f s = Inr s"
  by (simp add: ReadData_def)

text \<open>
  C5. A Produce that returns leaves the reader in a state on which the next Produce,
  with the same file, extent and target size, returns the same value, hands over the
  same grid (arrays, blanking and field data) and leaves the same reader, the live-cell
  count included. The dataset answers every call as before: it is a value.
\<close>

theorem RequestData_idempotent:
  assumes "RequestData e out s = Inr (rc, og, s3)"
  shows "RequestData e out s3 = Inr (rc, og, s3)"
proof -
  from assms obtain f s1 where f: "FileName s = Some f"
    and rd: "ReadData e f s = Inr s1"
    and pub: "publish_grid e out s1 = Inr (rc, og, s3)"
    by (auto simp: RequestData_def bindE_Inr_iff split: option.splits)
  show ?thesis
  proof (cases "GDALData s")
    case None
    then have "s1 = s" using rd by (simp add: ReadData_no_data)
    then have "s3 = s" using pub None by (simp add: publish_grid_def)
    then show ?thesis using assms by simp
  next
    case (Some ds)
    note again = ReadData_again [OF rd Some]
    let ?P = "exportToProj4 e (ProjectionRef ds)"
    from publish_grid_state [OF pub again(2)] obtain G where
      s3: "s3 = with_Projection ?P (s1\<lparr> UniformGridData := G, NumberOfCells := NumberOfCells s1 \<rparr>)"
      by blast
    have f3: "FileName s3 = Some f"
      using again(3) f by (simp add: s3 with_Projection_def)
    have "ReadData e f s3 = Inr (with_Projection ?P s1)"
      unfolding s3 by (rule again(1))
    then have "RequestData e out s3 = publish_grid e out (with_Projection ?P s1)"
      by (simp add: RequestData_def f3)
    also have "\<dots> = Inr (rc, og, s3)"
      using publish_grid_Projection [OF again(2)] pub by simp
    finally show ?thesis .
  qed
qed

theorem RequestData_idempotent_witness:
  "\<exists>g s3. RequestData (ex_env True ds_north_up) DataObject (described (ex_env True ds_north_up))
             = Inr (1, Some g, s3)
         \<and> RequestData (ex_env True ds_north_up) DataObject s3 = Inr (1, Some g, s3)
         \<and> map Values (CellArrays g) = [[Some 30, Some 40, Some 10, Some 20]]
         \<and> GetNumberOfCells s3 = 4"
proof -
  let ?run = "RequestData (ex_env True ds_north_up) DataObject
                (described (ex_env True ds_north_up))"
  have "case ?run of
          Inr (rc, Some g, s3) \<Rightarrow>
            rc = 1 \<and> map Values (CellArrays g) = [[Some 30, Some 40, Some 10, Some 20]]
            \<and> GetNumberOfCells s3 = 4
        | _ \<Rightarrow> False"
    by code_simp
  then obtain g s3 where run: "?run = Inr (1, Some g, s3)"
    and vals: "map Values (CellArrays g) = [[Some 30, Some 40, Some 10, Some 20]]"
    and cells: "GetNumberOfCells s3 = 4"
    by (auto split: sum.splits prod.splits option.splits)
  have again: "RequestData (ex_env True ds_north_up) DataObject s3 = Inr (1, Some g, s3)"
    by (rule RequestData_idempotent [OF run])
  show ?thesis
    by (rule exI [of _ g], rule exI [of _ s3]) (intro conjI run again vals cells)
qed

section \<open>The orientation of the produced grid\<close>














section \<open>Corner geocoding\<close>

lemma GetGeoCornerPoint_affine:
  assumes "GDALData s = Some ds" and "GCPProjection ds = None \<or> GCPs ds = None"
    and "GeoTransformStatus ds = CE_None"
  shows "GetGeoCornerPoint s (GDALData s) x y =
           Inr (True, Some (spec_affine (GeoTransformValue ds) x y))"
  using assms
  by (auto simp: GetGeoCornerPoint_def spec_affine_def Let_def split: option.splits)

text \<open>
  C6. Without ground-control points (null GCP projection or null GCP list) and with a
  geotransform, the four corners stored for the pixel corners (0,0), (0,H), (W,H), (W,0)
  are the values of the affine formulas; for the geotransform (100, 1, 0, 200, 0, -1)
  they are (100 + px, 200 - py).
\<close>

theorem affine_corners:
  assumes "GDALData s = Some ds" and "GCPProjection ds = None \<or> GCPs ds = None"
    and "GeoTransformStatus ds = CE_None"
  shows "GetGeoCornerPoints s =
           Inr (s\<lparr> CornerPoints :=
                  (spec_affine (GeoTransformValue ds) 0 0,
                   spec_affine (GeoTransformValue ds) 0 (real_of_int (snd (RasterDimensions s))),
                   spec_affine (GeoTransformValue ds) (real_of_int (fst (RasterDimensions s)))
                     (real_of_int (snd (RasterDimensions s))),
                   spec_affine (GeoTransformValue ds)
                     (real_of_int (fst (RasterDimensions s))) 0) \<rparr>)
         \<and> (GeoTransformValue ds
               = \<lparr> adf0 = 100, adf1 = 1, adf2 = 0, adf3 = 200, adf4 = 0, adf5 = -1 \<rparr> \<longrightarrow>
             GetGeoCornerPoints s =
               Inr (s\<lparr> CornerPoints :=
                  ((100, 200),
                   (100, 200 - real_of_int (snd (RasterDimensions s))),
                   (100 + real_of_int (fst (RasterDimensions s)),
                    200 - real_of_int (snd (RasterDimensions s))),
                   (100 + real_of_int (fst (RasterDimensions s)), 200)) \<rparr>))"
proof -
  have pt: "GetGeoCornerPoint s (GDALData s) x y =
              Inr (True, Some (spec_affine (GeoTransformValue ds) x y))" for x y
    by (rule GetGeoCornerPoint_affine [OF assms])
  have main: "GetGeoCornerPoints s =
           Inr (s\<lparr> CornerPoints :=
                  (spec_affine (GeoTransformValue ds) 0 0,
                   spec_affine (GeoTransformValue ds) 0 (real_of_int (snd (RasterDimensions s))),
                   spec_affine (GeoTransformValue ds) (real_of_int (fst (RasterDimensions s)))
                     (real_of_int (snd (RasterDimensions s))),
                   spec_affine (GeoTransformValue ds)
                     (real_of_int (fst (RasterDimensions s))) 0) \<rparr>)"
    by (simp add: GetGeoCornerPoints_def pt bindE_def store_corner_def Let_def
          split: prod.splits)
  show ?thesis
    by (simp add: main) (simp add: spec_affine_def)
qed

theorem affine_corners_witness:
  "GDALData affine_reader = Some ds_affine
   \<and> GCPProjection ds_affine = None
   \<and> GeoTransformStatus ds_affine = CE_None
   \<and> GetGeoCornerPoints affine_reader =
       Inr (affine_reader\<lparr> CornerPoints := ((100, 200), (100, 198), (103, 198), (103, 200)) \<rparr>)"
proof -
  have h1: "GDALData affine_reader = Some ds_affine"
    by (simp add: affine_reader_def)
  have h2: "GCPProjection ds_affine = None"
    by (simp add: ds_affine_def ex_dataset_def)
  have h3: "GeoTransformStatus ds_affine = CE_None"
    by (simp add: ds_affine_def ex_dataset_def)
  have g: "GeoTransformValue ds_affine
             = \<lparr> adf0 = 100, adf1 = 1, adf2 = 0, adf3 = 200, adf4 = 0, adf5 = -1 \<rparr>"
    by (simp add: ds_affine_def ex_dataset_def)
  have d: "RasterDimensions affine_reader = (3, 2)"
    by (simp add: affine_reader_def)
  from affine_corners [OF h1 disjI1 [OF h2] h3] g d h1 h2 h3 show ?thesis
    by (simp add: spec_affine_def)
qed

section \<open>The no-data vector\<close>

lemma opened_datasets_snoc:
  "opened_datasets e (files @ [f]) =
     (case GDALOpen e f of None \<Rightarrow> opened_datasets e files
      | Some ds \<Rightarrow> opened_datasets e files @ [ds])"
  by (simp add: opened_datasets_def List.map_filter_def split: option.splits)

lemma sized_for_ReadMetaData:
  assumes empty: "GDALOpen e [] = None" and inv: "sized_for e files s"
  shows "sized_for e (files @ [f]) (ReadMetaData e f s)"
proof (cases "f = PrevReadFileName s")
  case True
  show ?thesis
  proof (cases "opened_datasets e files = []")
    case True
    with inv \<open>f = PrevReadFileName s\<close> have "f = []" by (simp add: sized_for_def)
    then show ?thesis
      using inv True empty \<open>f = PrevReadFileName s\<close>
      by (simp add: sized_for_def opened_datasets_snoc ReadMetaData_def)
  next
    case False
    then show ?thesis
      using inv \<open>f = PrevReadFileName s\<close>
      by (simp add: sized_for_def opened_datasets_snoc ReadMetaData_def)
  qed
next
  case False
  then show ?thesis
    using inv
    by (cases "GDALOpen e f")
       (auto simp: sized_for_def opened_datasets_snoc ReadMetaData_def GetRasterCount_def)
qed

lemma sized_for_foldl:
  assumes "GDALOpen e [] = None"
  shows "sized_for e files (foldl (\<lambda>s f. ReadMetaData e f s) new_vtkGDALRasterReader files)"
proof (induction files rule: rev_induct)
  case Nil
  show ?case
    by (simp add: sized_for_def opened_datasets_def List.map_filter_def new_vtkGDALRasterReader_def)
next
  case (snoc f files)
  then show ?case using sized_for_ReadMetaData [OF assms] by simp
qed

text \<open>
  C10. \<open>GetInvalidValue\<close> reads \<open>NoDataValue[bandIndex - 1]\<close> unchecked. On a reader
  that has gone through any sequence of metadata reads since its construction, the
  read is inside the vector exactly when some file of the sequence has been opened
  and \<open>1 \<le> bandIndex \<le>\<close> the band count of the dataset opened last, which is also the
  value of \<open>NumberOfBands\<close>; any other index, 0 and the negative ones included, and
  every index while no file has been opened, is out of the vector's bounds. The empty
  path names no dataset.
\<close>

theorem GetInvalidValue_bounds:
  assumes "GDALOpen e [] = None"
  shows "GetInvalidValue (foldl (\<lambda>s f. ReadMetaData e f s) new_vtkGDALRasterReader files) bandIndex =
           (if opened_datasets e files \<noteq> [] \<and> 1 \<le> bandIndex
               \<and> bandIndex \<le> GetRasterCount (last (opened_datasets e files))
            then Inr (NoDataValue (foldl (\<lambda>s f. ReadMetaData e f s) new_vtkGDALRasterReader files)
                        ! nat (bandIndex - 1))
            else Inl OutOfRange)
         \<and> NumberOfBands (foldl (\<lambda>s f. ReadMetaData e f s) new_vtkGDALRasterReader files) =
             (if opened_datasets e files \<noteq> []
              then GetRasterCount (last (opened_datasets e files)) else 0)"
proof -
  let ?s = "foldl (\<lambda>s f. ReadMetaData e f s) new_vtkGDALRasterReader files"
  have "sized_for e files ?s" by (rule sized_for_foldl [OF assms])
  then show ?thesis
    by (auto simp: sized_for_def GetInvalidValue_def vec_at_def GetRasterCount_def
             split: if_splits)
qed

theorem GetInvalidValue_bounds_witness:
  "GDALOpen (ex_env True ds_gray_alpha) [] = None
   \<and> map GetRasterCount (opened_datasets (ex_env True ds_gray_alpha) [''a.tif'', ''b.tif'']) = [2]
   \<and> GetInvalidValue (foldl (\<lambda>s f. ReadMetaData (ex_env True ds_gray_alpha) f s)
                         new_vtkGDALRasterReader [''a.tif'', ''b.tif'']) 2 = Inr 0
   \<and> GetInvalidValue (foldl (\<lambda>s f. ReadMetaData (ex_env True ds_gray_alpha) f s)
                         new_vtkGDALRasterReader [''a.tif'', ''b.tif'']) 3 = Inl OutOfRange
   \<and> GetInvalidValue (foldl (\<lambda>s f. ReadMetaData (ex_env True ds_gray_alpha) f s)
                         new_vtkGDALRasterReader [''a.tif'', ''b.tif'']) 0 = Inl OutOfRange"
proof -
  let ?e = "ex_env True ds_gray_alpha"
  have h: "GDALOpen ?e [] = None"
    by (simp add: ex_env_def)
  have o: "opened_datasets ?e [''a.tif'', ''b.tif''] = [ds_gray_alpha]"
    by (simp add: opened_datasets_def List.map_filter_def ex_env_def)
  have c: "GetRasterCount ds_gray_alpha = 2"
    by (simp add: GetRasterCount_def ds_gray_alpha_def ex_dataset_def)
  have v: "NoDataValue (ReadMetaData ?e ''b.tif''
             (ReadMetaData ?e ''a.tif'' new_vtkGDALRasterReader)) = [0, 0]"
    by (simp add: ReadMetaData_def ex_env_def new_vtkGDALRasterReader_def c numeral_2_eq_2)
  from GetInvalidValue_bounds [OF h, of "[''a.tif'', ''b.tif'']" 2]
    GetInvalidValue_bounds [OF h, of "[''a.tif'', ''b.tif'']" 3]
    GetInvalidValue_bounds [OF h, of "[''a.tif'', ''b.tif'']" 0]
  show ?thesis
    using h by (simp add: o c v)
qed


section \<open>Runs on the concrete datasets\<close>

text \<open>
  C1. The claim: a cell is marked blanked when the source pixel of any slot of the
  group equals that band's no-data value, and the raw value is written all the same.
  \<open>Convert\<close> passes \<^verbatim>\<open>targetIndex\<close>, the index of the value in the output array, to
  \<^verbatim>\<open>BlankCell\<close>, which takes a cell id. On the gray+alpha raster of two cells the
  alpha of cell 0 is the no-data value: the raw values are all written, and the cell
  that is blanked is cell 1, not cell 0.
\<close>

theorem Convert_blanks_value_index:
  "(case RequestData (ex_env True ds_gray_alpha) DataObject (described (ex_env True ds_gray_alpha)) of
      Inr (rc, Some g, s') \<Rightarrow>
        Extent g = (0, 2, 0, 1, 0, 0)
        \<and> map Values (CellArrays g) = [[Some 5, Some 0, Some 6, Some 9]]
        \<and> HasNoDataValue s' = [0, 1] \<and> NoDataValue s' = [0, 0]
        \<and> BlankedCells g = {1}
    | _ \<Rightarrow> False)"
  by code_simp

text \<open>
  C2. The claim: a cell whose source pixel equals its band's no-data value is left out
  of \<open>NumberOfCells\<close>, and any other cell is counted once per pass over a band group.
  The counter is incremented once per slot. On the one-cell gray+alpha raster without
  no-data the count after Produce is 2; when the alpha of the cell is the alpha band's
  no-data value, the cell is still counted once, through its gray slot.
\<close>

theorem NumberOfCells_counts_slots:
  "(case RequestData (ex_env True (ds_one_cell 0)) DataObject
           (described (ex_env True (ds_one_cell 0))) of
      Inr (rc, Some g, s') \<Rightarrow>
        Extent g = (0, 1, 0, 1, 0, 0) \<and> BlankedCells g = {} \<and> GetNumberOfCells s' = 2
    | _ \<Rightarrow> False)
   \<and> (case RequestData (ex_env True (ds_one_cell 1)) DataObject
              (described (ex_env True (ds_one_cell 1))) of
         Inr (rc, Some g, s') \<Rightarrow>
           Extent g = (0, 1, 0, 1, 0, 0) \<and> HasNoDataValue s' = [0, 1]
           \<and> map Values (CellArrays g) = [[Some 5, Some 0]] \<and> GetNumberOfCells s' = 1
       | _ \<Rightarrow> False)"
  by code_simp

text \<open>
  C4. The claim: for every requested extent the window has its offset in
  \<open>[0, rasterDim]\<close>, a non-negative size, and offset + size within the raster. On a
  10 x 10 raster and the extent \<open>(10, 2147483647, 0, 9, 0, 0)\<close> the test
  \<^verbatim>\<open>SourceDimensions[0] + SourceOffset[0] > RasterDimensions[0]\<close> overflows, and the window
  keeps the width 2147483638 at offset 10.
\<close>

theorem window_overflow_leaves_raster:
  "(case RequestInformation (ex_env True ds_ten) True
           (ex_reader\<lparr> DataExtent := (10, 2147483647, 0, 9, 0, 0) \<rparr>) of
      (rc, s, pub) \<Rightarrow>
        rc = 1 \<and> RasterDimensions s = (10, 10)
        \<and> SourceOffset s = (10, 0) \<and> SourceDimensions s = (2147483638, 10))"
  by code_simp

text \<open>
  C7. The claim: a windowed band read that reports a non-success status makes the
  Produce call fail, with no grid handed to the caller. The status is only tested by
  \<^verbatim>\<open>assert\<close>. With \<^verbatim>\<open>NDEBUG\<close>, Produce on the raster whose read fails returns 1 and
  hands over a grid made from the zero-filled buffer.
\<close>

theorem failed_read_ignored_with_NDEBUG:
  "(case RequestData (ex_env True ds_failing) DataObject (described (ex_env True ds_failing)) of
      Inr (rc, Some g, s') \<Rightarrow>
        rc = 1 \<and> map Name (CellArrays g) = [''Elevation'']
        \<and> map Values (CellArrays g) = [[Some 0, Some 0]] \<and> GetNumberOfCells s' = 2
    | _ \<Rightarrow> False)"
  by code_simp

text \<open>Without \<^verbatim>\<open>NDEBUG\<close> the same call ends in the failed \<^verbatim>\<open>assert\<close>.\<close>

lemma failed_read_asserts_without_NDEBUG:
  "(case RequestData (ex_env False ds_failing) DataObject (described (ex_env False ds_failing)) of
      Inl e \<Rightarrow> e = AssertionFailed
    | Inr _ \<Rightarrow> False)"
  by code_simp

text \<open>
  C9. The claim: on a dataset with zero bands Produce completes without error, yields
  an empty grid, and does not read outside the empty pixel buffer. \<open>ReadData\<close> calls
  \<^verbatim>\<open>GetRasterDataType\<close> through the null band 1; on a reader whose pixel type is
  already fixed that call is skipped, and \<open>Convert\<close> reads \<^verbatim>\<open>rawUniformGridData[0]\<close>
  of the empty buffer.
\<close>

theorem zero_bands_Produce_fails:
  "(case RequestData (ex_env True ds_no_bands) DataObject (described (ex_env True ds_no_bands)) of
      Inl e \<Rightarrow> e = NullPointer
    | Inr _ \<Rightarrow> False)
   \<and> (case RequestData (ex_env True ds_no_bands) DataObject
              ((described (ex_env True ds_no_bands))\<lparr> NumberOfBytesPerPixel := 1 \<rparr>) of
         Inl e \<Rightarrow> e = OutOfRange
       | Inr _ \<Rightarrow> False)"
  by code_simp

end
